theory Spec2Isabelle
  imports Complex_Main
begin

section \<open>Resistojet steady-state solver: a shallow embedding of resistojet_simulation.py\<close>

text \<open>
  The Python module computes with IEEE double precision numbers (Python floats and numpy
  float64). They are embedded as the type \<open>real\<close>: \<open>**\<close> with a fractional exponent is
  \<open>powr\<close>, \<open>np.log10\<close> is \<open>log 10\<close>, \<open>np.log\<close> is \<open>ln\<close>, \<open>np.sqrt\<close> is \<open>sqrt\<close>.
  Rounding and overflow are outside the embedding: arithmetic on finite values is exact.
  The non-finite values appear where the code meets them without an overflow: the initial
  \<open>float('inf')\<close> of \<open>prev_max_diff\<close> is modelled with an option, and the quotient of line
  515 is a value of \<open>np_float\<close>. numpy arithmetic never raises on a division by zero (it warns
  and yields a non-finite value), so the arithmetic of the solver has no error branch.
\<close>

subsection \<open>Module constants (lines 8-33)\<close>

definition NUM_STATIONS :: nat where
  "NUM_STATIONS = 20"

definition CHAMBER_HEIGHT :: real where
  "CHAMBER_HEIGHT = 0.04"

definition CHAMBER_INNER_DIAMETER :: real where
  "CHAMBER_INNER_DIAMETER = 0.02"

definition CHAMBER_WALL_THICKNESS :: real where
  "CHAMBER_WALL_THICKNESS = 0.001"

definition COOLING_GAP :: real where
  "COOLING_GAP = 0.001"

definition COOLING_WALL_THICKNESS :: real where
  "COOLING_WALL_THICKNESS = 0.001"

definition MASS_FLOW_RATE :: real where
  "MASS_FLOW_RATE = 0.000005"

definition PRESSURE :: real where
  "PRESSURE = 1000000"

definition HEATER_POWER :: real where
  "HEATER_POWER = 70"

definition INITIAL_TEMP :: real where
  "INITIAL_TEMP = 300"

definition CHAMBER_ROUGHNESS :: real where
  "CHAMBER_ROUGHNESS = 0.0000008"

definition COOLING_ROUGHNESS :: real where
  "COOLING_ROUGHNESS = 0.00005"

definition chamber_inner_radius :: real where
  "chamber_inner_radius = CHAMBER_INNER_DIAMETER / 2"

definition chamber_outer_radius :: real where
  "chamber_outer_radius = chamber_inner_radius + CHAMBER_WALL_THICKNESS"

definition cooling_inner_radius :: real where
  "cooling_inner_radius = chamber_outer_radius"

definition cooling_outer_radius :: real where
  "cooling_outer_radius = cooling_inner_radius + COOLING_GAP"

definition cooling_jacket_outer_radius :: real where
  "cooling_jacket_outer_radius = cooling_outer_radius + COOLING_WALL_THICKNESS"

text \<open>
  Lines 28-29. These two cross-sections are the values that reach the comparison
  \<open>area == chamber_inner_area\<close> of line 144, which compares float64 values. So that the
  comparison of the embedding is the comparison of the program, each is the exact value
  of the float64 that the module computes:
  \<open>np.pi * chamber_inner_radius**2\<close> is \<open>0x1.496b7c53c5b02p-12\<close>
  (\<open>0.0003141592653589793\<close>), and
  \<open>np.pi * (cooling_outer_radius**2 - cooling_inner_radius**2)\<close> is
  \<open>0x1.2f10f780453bep-14\<close> (\<open>7.225663103256529e-05\<close>). An area argument is likewise
  the exact value of the float64 that is passed.
\<close>

definition chamber_inner_area :: real where
  "chamber_inner_area = 2897607783230849 / 2 ^ 63"

definition cooling_area :: real where
  "cooling_area = 2665799160572383 / 2 ^ 65"

text \<open>Line 33: the spacing of the plotting grid \<open>z_points\<close>.\<close>

definition dz :: real where
  "dz = CHAMBER_HEIGHT / (real NUM_STATIONS - 1)"

subsection \<open>Material properties (lines 36-118)\<close>

text \<open>
  \<open>scipy.interpolate.interp1d(x, y, kind='cubic', fill_value='extrapolate')\<close> is library
  code outside the repository. It is a parameter of the embedding: an \<open>interp1d\<close> maps the
  two tables and a temperature to the interpolated value. The tables are the source's.
\<close>

type_synonym interp1d = "real list \<Rightarrow> real list \<Rightarrow> real \<Rightarrow> real"

record props =
  density :: real
  specific_heat :: real
  thermal_conductivity :: real

record hydrogen_props = props +
  viscosity :: real

definition hydrogen_T_data :: "real list" where
  "hydrogen_T_data = [300, 500, 1000, 1500, 2000, 2500, 3000, 3500, 4000]"

definition hydrogen_rho_data :: "real list" where
  "hydrogen_rho_data = [0.8, 0.48, 0.24, 0.16, 0.12, 0.096, 0.08, 0.069, 0.06]"

definition hydrogen_cp_data :: "real list" where
  "hydrogen_cp_data = [14300, 14500, 15000, 15500, 16000, 16300, 16500, 16700, 16800]"

definition hydrogen_k_data :: "real list" where
  "hydrogen_k_data = [0.18, 0.26, 0.42, 0.52, 0.60, 0.65, 0.72, 0.78, 0.84]"

definition hydrogen_mu_data :: "real list" where
  "hydrogen_mu_data = [0.0000089, 0.0000122, 0.0000199, 0.000026, 0.000031, 0.000035,
     0.0000385, 0.0000415, 0.000044]"

definition hydrogen_properties :: "interp1d \<Rightarrow> real \<Rightarrow> hydrogen_props" where
  "hydrogen_properties interp T =
     \<lparr>density = interp hydrogen_T_data hydrogen_rho_data T,
      specific_heat = interp hydrogen_T_data hydrogen_cp_data T,
      thermal_conductivity = interp hydrogen_T_data hydrogen_k_data T,
      viscosity = interp hydrogen_T_data hydrogen_mu_data T\<rparr>"

definition inconel_T_data :: "real list" where
  "inconel_T_data = [300, 500, 700, 900, 1100, 1300]"

definition inconel_k_data :: "real list" where
  "inconel_k_data = [11.4, 13.8, 16.2, 18.6, 21.0, 23.4]"

definition inconel_cp_data :: "real list" where
  "inconel_cp_data = [435, 460, 485, 510, 535, 560]"

definition inconel_properties :: "interp1d \<Rightarrow> real \<Rightarrow> props" where
  "inconel_properties interp T =
     \<lparr>density = 8190,
      specific_heat = interp inconel_T_data inconel_cp_data T,
      thermal_conductivity = interp inconel_T_data inconel_k_data T\<rparr>"

text \<open>
  An interpolant used for concrete runs: it returns the first tabulated value (the value at
  the 300 K knot) at every temperature.
\<close>

definition frozen_interp :: interp1d where
  "frozen_interp xs ys T = hd ys"

subsection \<open>Flow parameters (lines 121-180)\<close>

text \<open>The returned dictionary, keys \<open>velocity\<close>, \<open>reynolds\<close>, \<open>friction_factor\<close>.\<close>

record flow_params =
  flow_velocity :: real
  flow_reynolds :: real
  flow_friction_factor :: real

text \<open>Lines 144-149: hydraulic diameter and roughness, chosen by comparing the area.\<close>

definition duct_constants :: "real \<Rightarrow> real \<times> real" where
  "duct_constants area =
     (if area = chamber_inner_area then (CHAMBER_INNER_DIAMETER, CHAMBER_ROUGHNESS)
      else (2 * COOLING_GAP, COOLING_ROUGHNESS))"

text \<open>Lines 155-159: the friction factor before the roughness correction.\<close>

definition friction_correlation :: "real \<Rightarrow> real" where
  "friction_correlation reynolds =
     (if reynolds < 2300 then 64 / reynolds else 0.316 * reynolds powr (- 0.25))"

text \<open>Line 169: one evaluation of the Colebrook-White fixed-point map, \<open>f_new\<close> from \<open>f_old\<close>.\<close>

definition colebrook_step :: "real \<Rightarrow> real \<Rightarrow> real \<Rightarrow> real \<Rightarrow> real" where
  "colebrook_step roughness hydraulic_diameter reynolds f_old =
     (1 / (- 2 * log 10 (roughness / (3.7 * hydraulic_diameter)
                          + 2.51 / (reynolds * sqrt f_old)))) ^ 2"

text \<open>
  Lines 167-172: \<open>for _ in range(10)\<close>; the first argument counts the iterations that
  are left. On \<open>break\<close> the variable \<open>f_old\<close> has not been overwritten.
\<close>

fun colebrook_loop :: "nat \<Rightarrow> real \<Rightarrow> real \<Rightarrow> real \<Rightarrow> real \<Rightarrow> real" where
  "colebrook_loop 0 roughness hydraulic_diameter reynolds f_old = f_old"
| "colebrook_loop (Suc n) roughness hydraulic_diameter reynolds f_old =
     (let f_new = colebrook_step roughness hydraulic_diameter reynolds f_old
      in if \<bar>f_new - f_old\<bar> < 0.000001 then f_old
         else colebrook_loop n roughness hydraulic_diameter reynolds f_new)"

definition calculate_flow_parameters ::
    "interp1d \<Rightarrow> real \<Rightarrow> real \<Rightarrow> real \<Rightarrow> real \<Rightarrow> flow_params" where
  "calculate_flow_parameters interp T area mass_flow pressure =
     (let props = hydrogen_properties interp T;
          velocity = mass_flow / (density props * area);
          (hydraulic_diameter, roughness) = duct_constants area;
          reynolds = density props * velocity * hydraulic_diameter / viscosity props;
          friction_factor = friction_correlation reynolds;
          friction_factor =
            (if reynolds > 4000
             then colebrook_loop 10 roughness hydraulic_diameter reynolds friction_factor
             else friction_factor)
      in \<lparr>flow_velocity = velocity, flow_reynolds = reynolds,
          flow_friction_factor = friction_factor\<rparr>)"

subsection \<open>Heat transfer coefficient (lines 183-226)\<close>

text \<open>Lines 216-221: the Nusselt number from the Reynolds and Prandtl numbers.\<close>

definition nusselt_correlation :: "real \<Rightarrow> real \<Rightarrow> real \<Rightarrow> real" where
  "nusselt_correlation hydraulic_diameter reynolds prandtl =
     (if reynolds < 2300
      then 3.66 + (0.0668 * (hydraulic_diameter / CHAMBER_HEIGHT) * reynolds * prandtl)
                  / (1 + 0.04 * ((hydraulic_diameter / CHAMBER_HEIGHT) * reynolds * prandtl)
                                 powr (2 / 3))
      else 0.023 * reynolds powr 0.8 * prandtl powr 0.4)"

definition calculate_heat_transfer ::
    "interp1d \<Rightarrow> real \<Rightarrow> real \<Rightarrow> string \<Rightarrow> real \<Rightarrow> real" where
  "calculate_heat_transfer interp T_fluid T_wall area_type hydraulic_diameter =
     (let props = hydrogen_properties interp T_fluid;
          area = (if area_type = ''chamber'' then chamber_inner_area else cooling_area);
          flow_params = calculate_flow_parameters interp T_fluid area MASS_FLOW_RATE PRESSURE;
          reynolds = flow_reynolds flow_params;
          prandtl = specific_heat props * viscosity props / thermal_conductivity props;
          nusselt = nusselt_correlation hydraulic_diameter reynolds prandtl
      in nusselt * thermal_conductivity props / hydraulic_diameter)"

subsection \<open>Steady-state solver (lines 229-385)\<close>

text \<open>The three station arrays; each has \<open>NUM_STATIONS\<close> entries.\<close>

record temperatures =
  T_chamber_wall :: "real list"
  T_cooling_fluid :: "real list"
  T_chamber_fluid :: "real list"

text \<open>Line 253.\<close>

definition heater_power_distribution :: "real list" where
  "heater_power_distribution =
     map (\<lambda>one. one * HEATER_POWER / real NUM_STATIONS) (replicate NUM_STATIONS 1)"

text \<open>
  Lines 276 and 304: the heat-transfer areas of one station. The source evaluates the same
  constant expression at every station of every iteration.
\<close>

definition cooling_heat_transfer_area :: real where
  "cooling_heat_transfer_area =
     2 * pi * chamber_outer_radius * (CHAMBER_HEIGHT / real NUM_STATIONS)"

definition chamber_heat_transfer_area :: real where
  "chamber_heat_transfer_area =
     2 * pi * chamber_inner_radius * (CHAMBER_HEIGHT / real NUM_STATIONS)"

text \<open>Lines 263-285: the coolant pass, \<open>for i in range(NUM_STATIONS-1)\<close>.\<close>

definition coolant_station ::
    "interp1d \<Rightarrow> nat \<Rightarrow> 'a temperatures_scheme \<Rightarrow> 'a temperatures_scheme" where
  "coolant_station interp i s =
     (let props_cooling = hydrogen_properties interp (T_cooling_fluid s ! i);
          h_cooling = calculate_heat_transfer interp (T_cooling_fluid s ! i)
                        (T_chamber_wall s ! i) ''cooling'' (2 * COOLING_GAP);
          q_cooling = h_cooling * cooling_heat_transfer_area
                        * (T_chamber_wall s ! i - T_cooling_fluid s ! i);
          dT_cooling = q_cooling / (MASS_FLOW_RATE * specific_heat props_cooling)
      in s\<lparr>T_cooling_fluid :=
              (T_cooling_fluid s)[i + 1 := T_cooling_fluid s ! i + dT_cooling]\<rparr>)"

definition coolant_pass ::
    "interp1d \<Rightarrow> 'a temperatures_scheme \<Rightarrow> 'a temperatures_scheme" where
  "coolant_pass interp s = fold (coolant_station interp) [0..<NUM_STATIONS - 1] s"

text \<open>
  Line 289: \<open>T_chamber_fluid[-1] = T_cooling_fluid[-1]\<close>; index \<open>-1\<close> is the last entry.
\<close>

definition chamber_inlet :: "'a temperatures_scheme \<Rightarrow> 'a temperatures_scheme" where
  "chamber_inlet s =
     s\<lparr>T_chamber_fluid :=
         (T_chamber_fluid s)[length (T_chamber_fluid s) - 1 :=
            T_cooling_fluid s ! (length (T_cooling_fluid s) - 1)]\<rparr>"

text \<open>Lines 291-315: the chamber pass, \<open>for i in range(NUM_STATIONS-1, 0, -1)\<close>.\<close>

definition chamber_station ::
    "interp1d \<Rightarrow> nat \<Rightarrow> 'a temperatures_scheme \<Rightarrow> 'a temperatures_scheme" where
  "chamber_station interp i s =
     (let props_chamber = hydrogen_properties interp (T_chamber_fluid s ! i);
          h_chamber = calculate_heat_transfer interp (T_chamber_fluid s ! i)
                        (T_chamber_wall s ! i) ''chamber'' CHAMBER_INNER_DIAMETER;
          q_heater = heater_power_distribution ! i;
          q_wall = h_chamber * chamber_heat_transfer_area
                     * (T_chamber_wall s ! i - T_chamber_fluid s ! i);
          q_total = q_heater + q_wall;
          dT_chamber = q_total / (MASS_FLOW_RATE * specific_heat props_chamber)
      in s\<lparr>T_chamber_fluid :=
              (T_chamber_fluid s)[i - 1 := T_chamber_fluid s ! i + dT_chamber]\<rparr>)"

definition chamber_pass ::
    "interp1d \<Rightarrow> 'a temperatures_scheme \<Rightarrow> 'a temperatures_scheme" where
  "chamber_pass interp s =
     fold (chamber_station interp) (rev [1..<NUM_STATIONS]) (chamber_inlet s)"

text \<open>
  Lines 318-357: the wall balance, \<open>for i in range(NUM_STATIONS)\<close>. The local names
  \<open>cooling_area\<close> and \<open>chamber_area\<close> of the source are per-station surface areas (the
  first hides the module-level cross-section of that name inside the solver only).
\<close>

definition wall_station ::
    "interp1d \<Rightarrow> real \<Rightarrow> nat \<Rightarrow> 'a temperatures_scheme \<Rightarrow> 'a temperatures_scheme" where
  "wall_station interp relaxation_factor i s =
     (let h_cooling = calculate_heat_transfer interp (T_cooling_fluid s ! i)
                        (T_chamber_wall s ! i) ''cooling'' (2 * COOLING_GAP);
          h_chamber = calculate_heat_transfer interp (T_chamber_fluid s ! i)
                        (T_chamber_wall s ! i) ''chamber'' CHAMBER_INNER_DIAMETER;
          cooling_area = 2 * pi * chamber_outer_radius * (CHAMBER_HEIGHT / real NUM_STATIONS);
          chamber_area = 2 * pi * chamber_inner_radius * (CHAMBER_HEIGHT / real NUM_STATIONS);
          q_cooling = h_cooling * cooling_area * (T_chamber_wall s ! i - T_cooling_fluid s ! i);
          q_chamber = h_chamber * chamber_area * (T_chamber_wall s ! i - T_chamber_fluid s ! i);
          q_heater = heater_power_distribution ! i;
          q_net = q_heater - q_cooling - q_chamber;
          props_wall = inconel_properties interp (T_chamber_wall s ! i);
          wall_volume = pi * (chamber_outer_radius ^ 2 - chamber_inner_radius ^ 2)
                          * (CHAMBER_HEIGHT / real NUM_STATIONS);
          wall_mass = density props_wall * wall_volume;
          dT_wall = q_net / (wall_mass * specific_heat props_wall) * relaxation_factor
      in s\<lparr>T_chamber_wall := (T_chamber_wall s)[i := T_chamber_wall s ! i + dT_wall]\<rparr>)"

definition wall_pass ::
    "interp1d \<Rightarrow> real \<Rightarrow> 'a temperatures_scheme \<Rightarrow> 'a temperatures_scheme" where
  "wall_pass interp relaxation_factor s =
     fold (wall_station interp relaxation_factor) [0..<NUM_STATIONS] s"

text \<open>Line 360: \<open>np.max(np.abs(T_chamber_wall - T_chamber_wall_prev))\<close>.\<close>

definition max_abs_diff :: "real list \<Rightarrow> real list \<Rightarrow> real" where
  "max_abs_diff xs ys = Max (set (map2 (\<lambda>x y. \<bar>x - y\<bar>) xs ys))"

text \<open>
  The progress callback is code of the caller. A call either returns or raises; what it
  raises is an instance of \<open>Exception\<close>, which \<open>except Exception\<close> (line 366) catches, or
  of another subclass of \<open>BaseException\<close> (\<open>KeyboardInterrupt\<close>, \<open>SystemExit\<close>), which
  that clause lets through. The handler (line 367) formats the caught exception into an
  f-string and prints it, with no \<open>try\<close> of its own: formatting calls the exception's
  \<open>__str__\<close>, which is code of the caller again, so the handler either prints a message
  or raises in turn, and what it raises leaves the solver.
\<close>

datatype py_exception = ExceptionInstance handler_print | OtherBaseException string
  and handler_print = Prints string | PrintRaises py_exception

datatype callback_outcome = Returns | Raises py_exception

type_synonym progress_callback = "nat \<Rightarrow> int \<Rightarrow> real \<Rightarrow> callback_outcome"

text \<open>
  What a run emits, in order: the calls of the callback with their arguments, and the
  lines printed at 367, 377 and 381-382.
\<close>

datatype event =
    CallbackCalled nat int real
  | CallbackErrorPrinted string
  | ConvergencePrinted nat
  | MaxIterationsWarning real

text \<open>
  The local state of the loop. \<open>prev_max_diff = None\<close> is the initial \<open>float('inf')\<close>.
  \<open>loop_vars\<close> holds the loop variable \<open>iteration\<close> and the local \<open>max_diff\<close>, which
  are unbound (\<open>None\<close>) until the body of the loop has run.
\<close>

record solver_state = temperatures +
  relaxation_factor :: real
  prev_max_diff :: "real option"
  loop_vars :: "(nat \<times> real) option"
  emitted :: "event list"

record simulation_result = temperatures +
  iterations_completed :: nat

datatype error = UnboundLocalError | CallbackRaised py_exception

text \<open>Lines 248-256.\<close>

definition initial_state :: "real \<Rightarrow> solver_state" where
  "initial_state relaxation =
     \<lparr>T_chamber_wall = map (\<lambda>one. one * INITIAL_TEMP) (replicate NUM_STATIONS 1),
      T_cooling_fluid = map (\<lambda>one. one * INITIAL_TEMP) (replicate NUM_STATIONS 1),
      T_chamber_fluid = map (\<lambda>one. one * INITIAL_TEMP) (replicate NUM_STATIONS 1),
      relaxation_factor = relaxation,
      prev_max_diff = None,
      loop_vars = None,
      emitted = []\<rparr>"

text \<open>Lines 260-360: the three passes of one iteration and its \<open>max_diff\<close>.\<close>

definition sweep :: "interp1d \<Rightarrow> solver_state \<Rightarrow> solver_state \<times> real" where
  "sweep interp s =
     (let T_chamber_wall_prev = T_chamber_wall s;
          s = coolant_pass interp s;
          s = chamber_pass interp s;
          s = wall_pass interp (relaxation_factor s) s;
          max_diff = max_abs_diff (T_chamber_wall s) T_chamber_wall_prev
      in (s, max_diff))"

text \<open>Lines 363-367: the events of the call, or the exception that escapes.\<close>

definition call_progress_callback ::
    "progress_callback option \<Rightarrow> nat \<Rightarrow> int \<Rightarrow> real \<Rightarrow> py_exception + event list" where
  "call_progress_callback progress_callback iteration max_iterations max_diff =
     (case progress_callback of
        None \<Rightarrow> Inr []
      | Some f \<Rightarrow>
          (case f iteration max_iterations max_diff of
             Returns \<Rightarrow> Inr [CallbackCalled iteration max_iterations max_diff]
           | Raises (ExceptionInstance (Prints e)) \<Rightarrow>
               Inr [CallbackCalled iteration max_iterations max_diff, CallbackErrorPrinted e]
           | Raises (ExceptionInstance (PrintRaises e)) \<Rightarrow> Inl e
           | Raises (OtherBaseException e) \<Rightarrow> Inl (OtherBaseException e)))"

text \<open>Line 370: \<open>max_diff > prev_max_diff\<close>, where \<open>None\<close> is \<open>float('inf')\<close>.\<close>

definition exceeds :: "real \<Rightarrow> real option \<Rightarrow> bool" where
  "exceeds max_diff prev = (case prev of None \<Rightarrow> False | Some p \<Rightarrow> max_diff > p)"

text \<open>Lines 370-371.\<close>

definition adapt_relaxation :: "nat \<Rightarrow> real \<Rightarrow> real option \<Rightarrow> real \<Rightarrow> real" where
  "adapt_relaxation iteration max_diff prev relaxation =
     (if iteration > 0 \<and> exceeds max_diff prev then relaxation * 0.95 else relaxation)"

text \<open>
  Lines 259-378: the body of the outer loop at \<open>iteration\<close>. The result is the exception
  that escapes, or the flag "the loop was left by \<open>break\<close>" with the new state.
\<close>

definition solver_iteration ::
    "interp1d \<Rightarrow> progress_callback option \<Rightarrow> int \<Rightarrow> real \<Rightarrow> nat \<Rightarrow> solver_state
     \<Rightarrow> py_exception + (bool \<times> solver_state)" where
  "solver_iteration interp progress_callback max_iterations tolerance iteration s =
     (case sweep interp s of (s, max_diff) \<Rightarrow>
        (case call_progress_callback progress_callback iteration max_iterations max_diff of
           Inl e \<Rightarrow> Inl e
         | Inr events \<Rightarrow>
             (let s = s\<lparr>emitted := emitted s @ events,
                        loop_vars := Some (iteration, max_diff),
                        relaxation_factor :=
                          adapt_relaxation iteration max_diff (prev_max_diff s)
                            (relaxation_factor s),
                        prev_max_diff := Some max_diff\<rparr>
              in if max_diff < tolerance
                 then Inr (True, s\<lparr>emitted := emitted s @ [ConvergencePrinted (iteration + 1)]\<rparr>)
                 else Inr (False, s))))"

text \<open>
  Line 258: \<open>for iteration in range(max_iterations)\<close>. The fifth argument counts the
  iterations that are left, the sixth is the next value of \<open>iteration\<close>.
\<close>

fun solver_loop ::
    "interp1d \<Rightarrow> progress_callback option \<Rightarrow> int \<Rightarrow> real \<Rightarrow> nat \<Rightarrow> nat \<Rightarrow> solver_state
     \<Rightarrow> py_exception + solver_state" where
  "solver_loop interp progress_callback max_iterations tolerance 0 iteration s = Inr s"
| "solver_loop interp progress_callback max_iterations tolerance (Suc n) iteration s =
     (case solver_iteration interp progress_callback max_iterations tolerance iteration s of
        Inl e \<Rightarrow> Inl e
      | Inr (left_by_break, s) \<Rightarrow>
          if left_by_break then Inr s
          else solver_loop interp progress_callback max_iterations tolerance n
                 (iteration + 1) s)"

text \<open>
  Lines 229-385. The result is the returned tuple together with what the run emitted, or
  the exception that leaves the function: line 380 reads \<open>iteration\<close>, which is unbound
  when the loop body never ran.
\<close>

definition steady_state_simulation ::
    "interp1d \<Rightarrow> progress_callback option \<Rightarrow> int \<Rightarrow> real \<Rightarrow> real
     \<Rightarrow> error + (simulation_result \<times> event list)" where
  "steady_state_simulation interp progress_callback max_iterations tolerance relaxation =
     (case solver_loop interp progress_callback max_iterations tolerance
             (nat max_iterations) 0 (initial_state relaxation) of
        Inl e \<Rightarrow> Inl (CallbackRaised e)
      | Inr s \<Rightarrow>
          (case loop_vars s of
             None \<Rightarrow> Inl UnboundLocalError
           | Some (iteration, max_diff) \<Rightarrow>
               Inr (\<lparr>T_chamber_wall = T_chamber_wall s,
                     T_cooling_fluid = T_cooling_fluid s,
                     T_chamber_fluid = T_chamber_fluid s,
                     iterations_completed = iteration + 1\<rparr>,
                    (if int iteration = max_iterations - 1
                     then emitted s @ [MaxIterationsWarning max_diff]
                     else emitted s))))"

subsection \<open>Equilibrium time (lines 493-523)\<close>










subsection \<open>Shape of the arrays\<close>

text \<open>All three arrays have \<open>NUM_STATIONS\<close> entries; every pass keeps it so.\<close>

definition lengths_ok :: "'a temperatures_scheme \<Rightarrow> bool" where
  "lengths_ok s =
     (length (T_chamber_wall s) = NUM_STATIONS \<and> length (T_cooling_fluid s) = NUM_STATIONS
      \<and> length (T_chamber_fluid s) = NUM_STATIONS)"

subsection \<open>Reading the emitted events\<close>

text \<open>The calls of the progress callback among the events of a run, in order.\<close>

fun callback_calls :: "event list \<Rightarrow> (nat \<times> int \<times> real) list" where
  "callback_calls [] = []"
| "callback_calls (CallbackCalled i m d # es) = (i, m, d) # callback_calls es"
| "callback_calls (e # es) = callback_calls es"

section \<open>Properties\<close>

lemma NUM_STATIONS_pos: "0 < NUM_STATIONS"
  by (simp add: NUM_STATIONS_def)

lemma fold_preserves:
  assumes "\<And>i s. i \<in> set js \<Longrightarrow> g (f i s) = g s"
  shows "g (fold f js s) = g s"
  using assms by (induction js arbitrary: s) simp_all

lemma fold_commute:
  assumes "\<And>i s. f i (h s) = h (f i s)"
  shows "fold f js (h s) = h (fold f js s)"
  by (induction js arbitrary: s) (simp_all add: assms)

subsection \<open>What each pass leaves unchanged\<close>

text \<open>The coolant pass.\<close>

lemma coolant_station_wall: "T_chamber_wall (coolant_station interp i s) = T_chamber_wall s"
  by (simp add: coolant_station_def Let_def)

lemma coolant_station_chamber: "T_chamber_fluid (coolant_station interp i s) = T_chamber_fluid s"
  by (simp add: coolant_station_def Let_def)

lemma coolant_station_length:
  "length (T_cooling_fluid (coolant_station interp i s)) = length (T_cooling_fluid s)"
  by (simp add: coolant_station_def Let_def)

lemma coolant_station_inlet:
  "T_cooling_fluid (coolant_station interp i s) ! 0 = T_cooling_fluid s ! 0"
  by (simp add: coolant_station_def Let_def)

lemma coolant_station_more:
  "temperatures.more (coolant_station interp i s) = temperatures.more s"
  by (simp add: coolant_station_def Let_def)

lemma coolant_pass_wall: "T_chamber_wall (coolant_pass interp s) = T_chamber_wall s"
  unfolding coolant_pass_def by (rule fold_preserves) (rule coolant_station_wall)

lemma coolant_pass_chamber: "T_chamber_fluid (coolant_pass interp s) = T_chamber_fluid s"
  unfolding coolant_pass_def by (rule fold_preserves) (rule coolant_station_chamber)

lemma coolant_pass_length:
  "length (T_cooling_fluid (coolant_pass interp s)) = length (T_cooling_fluid s)"
  unfolding coolant_pass_def
  by (rule fold_preserves [where g = "\<lambda>s. length (T_cooling_fluid s)"])
     (rule coolant_station_length)

lemma coolant_pass_inlet: "T_cooling_fluid (coolant_pass interp s) ! 0 = T_cooling_fluid s ! 0"
  unfolding coolant_pass_def
  by (rule fold_preserves [where g = "\<lambda>s. T_cooling_fluid s ! 0"])
     (rule coolant_station_inlet)

lemma coolant_pass_more: "temperatures.more (coolant_pass interp s) = temperatures.more s"
  unfolding coolant_pass_def by (rule fold_preserves) (rule coolant_station_more)

text \<open>The chamber pass.\<close>

lemma chamber_inlet_simps:
  "T_chamber_wall (chamber_inlet s) = T_chamber_wall s"
  "T_cooling_fluid (chamber_inlet s) = T_cooling_fluid s"
  "length (T_chamber_fluid (chamber_inlet s)) = length (T_chamber_fluid s)"
  "temperatures.more (chamber_inlet s) = temperatures.more s"
  by (simp_all add: chamber_inlet_def)

lemma chamber_inlet_last:
  assumes "length (T_chamber_fluid s) = NUM_STATIONS" "length (T_cooling_fluid s) = NUM_STATIONS"
  shows "T_chamber_fluid (chamber_inlet s) ! (NUM_STATIONS - 1) = T_cooling_fluid s ! (NUM_STATIONS - 1)"
  using assms NUM_STATIONS_pos by (simp add: chamber_inlet_def)

lemma chamber_station_simps:
  "T_chamber_wall (chamber_station interp i s) = T_chamber_wall s"
  "T_cooling_fluid (chamber_station interp i s) = T_cooling_fluid s"
  "length (T_chamber_fluid (chamber_station interp i s)) = length (T_chamber_fluid s)"
  "temperatures.more (chamber_station interp i s) = temperatures.more s"
  by (simp_all add: chamber_station_def Let_def)

lemma chamber_station_last:
  assumes "i \<in> set (rev [1..<NUM_STATIONS])"
  shows "T_chamber_fluid (chamber_station interp i s) ! (NUM_STATIONS - 1)
         = T_chamber_fluid s ! (NUM_STATIONS - 1)"
proof -
  from assms have "i - 1 \<noteq> NUM_STATIONS - 1" by auto
  then show ?thesis by (simp add: chamber_station_def Let_def)
qed

lemma chamber_pass_wall: "T_chamber_wall (chamber_pass interp s) = T_chamber_wall s"
  unfolding chamber_pass_def
  by (simp add: fold_preserves [where g = T_chamber_wall] chamber_station_simps chamber_inlet_simps)

lemma chamber_pass_cooling: "T_cooling_fluid (chamber_pass interp s) = T_cooling_fluid s"
  unfolding chamber_pass_def
  by (simp add: fold_preserves [where g = T_cooling_fluid] chamber_station_simps chamber_inlet_simps)

lemma chamber_pass_length:
  "length (T_chamber_fluid (chamber_pass interp s)) = length (T_chamber_fluid s)"
  unfolding chamber_pass_def
  by (simp add: fold_preserves [where g = "\<lambda>s. length (T_chamber_fluid s)"]
      chamber_station_simps chamber_inlet_simps)

lemma chamber_pass_more: "temperatures.more (chamber_pass interp s) = temperatures.more s"
  unfolding chamber_pass_def
  by (simp add: fold_preserves [where g = temperatures.more] chamber_station_simps chamber_inlet_simps)

lemma chamber_pass_last:
  assumes "length (T_chamber_fluid s) = NUM_STATIONS" "length (T_cooling_fluid s) = NUM_STATIONS"
  shows "T_chamber_fluid (chamber_pass interp s) ! (NUM_STATIONS - 1)
         = T_cooling_fluid s ! (NUM_STATIONS - 1)"
proof -
  have "T_chamber_fluid (chamber_pass interp s) ! (NUM_STATIONS - 1)
        = T_chamber_fluid (chamber_inlet s) ! (NUM_STATIONS - 1)"
    unfolding chamber_pass_def
    by (rule fold_preserves [where g = "\<lambda>s. T_chamber_fluid s ! (NUM_STATIONS - 1)"])
       (rule chamber_station_last)
  also have "\<dots> = T_cooling_fluid s ! (NUM_STATIONS - 1)"
    using assms by (rule chamber_inlet_last)
  finally show ?thesis .
qed

text \<open>The wall balance.\<close>

lemma wall_station_simps:
  "T_cooling_fluid (wall_station interp r i s) = T_cooling_fluid s"
  "T_chamber_fluid (wall_station interp r i s) = T_chamber_fluid s"
  "length (T_chamber_wall (wall_station interp r i s)) = length (T_chamber_wall s)"
  "temperatures.more (wall_station interp r i s) = temperatures.more s"
  by (simp_all add: wall_station_def Let_def)

lemma wall_pass_cooling: "T_cooling_fluid (wall_pass interp r s) = T_cooling_fluid s"
  unfolding wall_pass_def
  by (simp add: fold_preserves [where g = T_cooling_fluid] wall_station_simps)

lemma wall_pass_chamber: "T_chamber_fluid (wall_pass interp r s) = T_chamber_fluid s"
  unfolding wall_pass_def
  by (simp add: fold_preserves [where g = T_chamber_fluid] wall_station_simps)

lemma wall_pass_length: "length (T_chamber_wall (wall_pass interp r s)) = length (T_chamber_wall s)"
  unfolding wall_pass_def
  by (simp add: fold_preserves [where g = "\<lambda>s. length (T_chamber_wall s)"] wall_station_simps)

lemma wall_pass_more: "temperatures.more (wall_pass interp r s) = temperatures.more s"
  unfolding wall_pass_def
  by (simp add: fold_preserves [where g = temperatures.more] wall_station_simps)

lemmas pass_simps =
  coolant_pass_wall coolant_pass_chamber coolant_pass_length coolant_pass_inlet coolant_pass_more
  chamber_pass_wall chamber_pass_cooling chamber_pass_length chamber_pass_more
  wall_pass_cooling wall_pass_chamber wall_pass_length wall_pass_more

text \<open>One sweep of the three passes.\<close>

lemma more_fields:
  "relaxation_factor s = relaxation_factor (s' :: solver_state)
   \<and> prev_max_diff s = prev_max_diff s' \<and> loop_vars s = loop_vars s' \<and> emitted s = emitted s'"
  if "temperatures.more s = temperatures.more s'" for s :: solver_state
  using that by (cases s, cases s') simp

lemma sweep_props:
  assumes "sweep interp s = (s', md)" and "lengths_ok s"
  shows "lengths_ok s'"
    and "T_chamber_fluid s' ! (NUM_STATIONS - 1) = T_cooling_fluid s' ! (NUM_STATIONS - 1)"
    and "T_cooling_fluid s' ! 0 = T_cooling_fluid s ! 0"
    and "relaxation_factor s' = relaxation_factor s"
    and "prev_max_diff s' = prev_max_diff s"
    and "loop_vars s' = loop_vars s"
    and "emitted s' = emitted s"
proof -
  let ?a = "coolant_pass interp s"
  let ?b = "chamber_pass interp ?a"
  from assms(1) have s': "s' = wall_pass interp (relaxation_factor ?b) ?b"
    by (simp add: sweep_def Let_def)
  have m: "temperatures.more s' = temperatures.more s"
    by (simp add: s' pass_simps)
  from assms(2) show "lengths_ok s'"
    by (simp add: s' lengths_ok_def pass_simps)
  from assms(2) have "length (T_chamber_fluid ?a) = NUM_STATIONS"
    "length (T_cooling_fluid ?a) = NUM_STATIONS"
    by (simp_all add: lengths_ok_def pass_simps)
  then have "T_chamber_fluid ?b ! (NUM_STATIONS - 1) = T_cooling_fluid ?a ! (NUM_STATIONS - 1)"
    by (rule chamber_pass_last)
  then show "T_chamber_fluid s' ! (NUM_STATIONS - 1) = T_cooling_fluid s' ! (NUM_STATIONS - 1)"
    by (simp add: s' pass_simps)
  show "T_cooling_fluid s' ! 0 = T_cooling_fluid s ! 0"
    by (simp add: s' pass_simps)
  from more_fields [OF m]
  show "relaxation_factor s' = relaxation_factor s" "prev_max_diff s' = prev_max_diff s"
    "loop_vars s' = loop_vars s" "emitted s' = emitted s"
    by simp_all
qed


subsection \<open>The outer loop\<close>

lemma initial_state_simps:
  "lengths_ok (initial_state r)"
  "loop_vars (initial_state r) = None"
  "relaxation_factor (initial_state r) = r"
  "T_cooling_fluid (initial_state r) ! 0 = INITIAL_TEMP"
  using NUM_STATIONS_pos by (simp_all add: initial_state_def lengths_ok_def)

lemma solver_iteration_Inr:
  assumes "solver_iteration interp cb maxit tol it s = Inr (b, s')" and "lengths_ok s"
  shows "lengths_ok s'"
    and "T_chamber_fluid s' ! (NUM_STATIONS - 1) = T_cooling_fluid s' ! (NUM_STATIONS - 1)"
    and "T_cooling_fluid s' ! 0 = T_cooling_fluid s ! 0"
    and "loop_vars s' = Some (it, snd (sweep interp s))"
    and "b = (snd (sweep interp s) < tol)"
proof -
  obtain s1 md where sw: "sweep interp s = (s1, md)"
    by (cases "sweep interp s")
  note p = sweep_props [OF sw assms(2)]
  from assms(1) obtain ev where
    s': "s' = (if md < tol then (\<lambda>t. t\<lparr>emitted := emitted t @ [ConvergencePrinted (it + 1)]\<rparr>) else (\<lambda>t. t))
           (s1\<lparr>emitted := emitted s1 @ ev, loop_vars := Some (it, md),
               relaxation_factor := adapt_relaxation it md (prev_max_diff s1) (relaxation_factor s1),
               prev_max_diff := Some md\<rparr>)"
    and b: "b = (md < tol)"
    by (auto simp: solver_iteration_def sw Let_def split: sum.splits if_splits)
  from p(1) show "lengths_ok s'" by (simp add: s' lengths_ok_def)
  from p(2) show "T_chamber_fluid s' ! (NUM_STATIONS - 1) = T_cooling_fluid s' ! (NUM_STATIONS - 1)"
    by (simp add: s')
  from p(3) show "T_cooling_fluid s' ! 0 = T_cooling_fluid s ! 0" by (simp add: s')
  show "loop_vars s' = Some (it, snd (sweep interp s))" by (simp add: s' sw)
  show "b = (snd (sweep interp s) < tol)" by (simp add: b sw)
qed

lemma solver_loop_Inr:
  assumes "solver_loop interp cb maxit tol n it s = Inr sf" and "lengths_ok s"
  shows "lengths_ok sf \<and> T_cooling_fluid sf ! 0 = T_cooling_fluid s ! 0
         \<and> (n = 0 \<and> sf = s
            \<or> (\<exists>k md. loop_vars sf = Some (k, md) \<and> it \<le> k \<and> k < it + n)
              \<and> T_chamber_fluid sf ! (NUM_STATIONS - 1) = T_cooling_fluid sf ! (NUM_STATIONS - 1))"
  using assms
proof (induction n arbitrary: it s)
  case 0
  then show ?case by simp
next
  case (Suc n)
  from Suc.prems(1) obtain b s1 where
    it: "solver_iteration interp cb maxit tol it s = Inr (b, s1)"
    by (auto split: sum.splits)
  note p = solver_iteration_Inr [OF it Suc.prems(2)]
  show ?case
  proof (cases b)
    case True
    with Suc.prems(1) it have "sf = s1" by simp
    with p show ?thesis by simp
  next
    case False
    with Suc.prems(1) it have "solver_loop interp cb maxit tol n (it + 1) s1 = Inr sf"
      by simp
    from Suc.IH [OF this p(1)] p show ?thesis by auto
  qed
qed

lemma solver_iteration_total:
  assumes "\<forall>f i d. cb = Some f \<longrightarrow>
             f i maxit d = Returns \<or> (\<exists>m. f i maxit d = Raises (ExceptionInstance (Prints m)))"
  shows "\<exists>b s'. solver_iteration interp cb maxit tol it s = Inr (b, s')"
proof -
  obtain s1 md where sw: "sweep interp s = (s1, md)"
    by (cases "sweep interp s")
  have "\<exists>ev. call_progress_callback cb it maxit md = Inr ev"
  proof (cases cb)
    case None
    then show ?thesis by (simp add: call_progress_callback_def)
  next
    case (Some f)
    with assms have "f it maxit md = Returns
        \<or> (\<exists>m. f it maxit md = Raises (ExceptionInstance (Prints m)))"
      by blast
    with Some show ?thesis by (auto simp: call_progress_callback_def)
  qed
  then show ?thesis
    by (auto simp: solver_iteration_def sw Let_def)
qed

lemma solver_loop_total:
  assumes "\<forall>f i d. cb = Some f \<longrightarrow>
             f i maxit d = Returns \<or> (\<exists>m. f i maxit d = Raises (ExceptionInstance (Prints m)))"
  shows "\<exists>sf. solver_loop interp cb maxit tol n it s = Inr sf"
proof (induction n arbitrary: it s)
  case 0
  show ?case by simp
next
  case (Suc n)
  from solver_iteration_total [OF assms] obtain b s1 where
    "solver_iteration interp cb maxit tol it s = Inr (b, s1)"
    by blast
  with Suc [of "it + 1" s1] show ?case by (cases b) auto
qed

lemma steady_state_simulation_returns:
  assumes "0 < maxit"
    and "\<forall>f i d. cb = Some f \<longrightarrow>
             f i maxit d = Returns \<or> (\<exists>m. f i maxit d = Raises (ExceptionInstance (Prints m)))"
  shows "\<exists>r out. steady_state_simulation interp cb maxit tol relax = Inr (r, out)
           \<and> 1 \<le> iterations_completed r \<and> int (iterations_completed r) \<le> maxit"
proof -
  from solver_loop_total [OF assms(2)] obtain sf where
    l: "solver_loop interp cb maxit tol (nat maxit) 0 (initial_state relax) = Inr sf"
    by blast
  from solver_loop_Inr [OF l initial_state_simps(1)] assms(1)
  obtain k md where "loop_vars sf = Some (k, md)" "k < nat maxit"
    by auto
  then show ?thesis
    by (simp add: steady_state_simulation_def l)
qed

lemma steady_state_simulation_Inr:
  assumes "steady_state_simulation interp cb maxit tol relax = Inr (r, out)"
  shows "lengths_ok r" 
    and "T_chamber_fluid r ! (NUM_STATIONS - 1) = T_cooling_fluid r ! (NUM_STATIONS - 1)"
    and "T_cooling_fluid r ! 0 = INITIAL_TEMP"
    and "1 \<le> iterations_completed r" and "int (iterations_completed r) \<le> maxit"
proof -
  from assms obtain sf k md where
    l: "solver_loop interp cb maxit tol (nat maxit) 0 (initial_state relax) = Inr sf"
    and v: "loop_vars sf = Some (k, md)"
    and r: "r = \<lparr>T_chamber_wall = T_chamber_wall sf, T_cooling_fluid = T_cooling_fluid sf,
                T_chamber_fluid = T_chamber_fluid sf, iterations_completed = k + 1\<rparr>"
    by (auto simp: steady_state_simulation_def split: sum.splits option.splits)
  from solver_loop_Inr [OF l initial_state_simps(1)] v
  have p: "lengths_ok sf" "T_cooling_fluid sf ! 0 = INITIAL_TEMP"
    "T_chamber_fluid sf ! (NUM_STATIONS - 1) = T_cooling_fluid sf ! (NUM_STATIONS - 1)"
    "k < nat maxit"
    by (auto simp: initial_state_simps)
  from p show "lengths_ok r" by (simp add: r lengths_ok_def)
  from p show "T_chamber_fluid r ! (NUM_STATIONS - 1) = T_cooling_fluid r ! (NUM_STATIONS - 1)"
    by (simp add: r)
  from p show "T_cooling_fluid r ! 0 = INITIAL_TEMP" by (simp add: r)
  show "1 \<le> iterations_completed r" by (simp add: r)
  from p show "int (iterations_completed r) \<le> maxit" by (simp add: r)
qed

text \<open>How the loop is left: by \<open>break\<close> on convergence, or with the range exhausted.\<close>

lemma solver_iteration_break:
  assumes "solver_iteration interp cb maxit tol it s = Inr (True, s')"
  shows "emitted s' \<noteq> [] \<and> last (emitted s') = ConvergencePrinted (it + 1)"
  using assms
  by (auto simp: solver_iteration_def Let_def split: prod.splits sum.splits if_splits)

lemma solver_loop_exit:
  assumes "solver_loop interp cb maxit tol n it s = Inr sf" and "lengths_ok s" and "0 < n"
  shows "\<exists>k md. loop_vars sf = Some (k, md) \<and> it \<le> k \<and> k < it + n
           \<and> (emitted sf \<noteq> [] \<and> last (emitted sf) = ConvergencePrinted (k + 1)
              \<or> k + 1 = it + n)"
  using assms
proof (induction n arbitrary: it s)
  case 0
  then show ?case by simp
next
  case (Suc n)
  from Suc.prems(1) obtain b s1 where
    it: "solver_iteration interp cb maxit tol it s = Inr (b, s1)"
    by (auto split: sum.splits)
  note p = solver_iteration_Inr [OF it Suc.prems(2)]
  show ?case
  proof (cases b)
    case True
    with Suc.prems(1) it have "sf = s1" by simp
    moreover from it True have "solver_iteration interp cb maxit tol it s = Inr (True, s1)"
      by simp
    then have "emitted s1 \<noteq> [] \<and> last (emitted s1) = ConvergencePrinted (it + 1)"
      by (rule solver_iteration_break)
    ultimately show ?thesis using p(4) by simp
  next
    case False
    with Suc.prems(1) it have l: "solver_loop interp cb maxit tol n (it + 1) s1 = Inr sf"
      by simp
    show ?thesis
    proof (cases n)
      case 0
      with l have "sf = s1" by simp
      with p(4) 0 show ?thesis by simp
    next
      case (Suc m)
      with Suc.IH [OF l p(1)] show ?thesis by auto
    qed
  qed
qed

lemma steady_state_simulation_exit:
  assumes "steady_state_simulation interp cb maxit tol relax = Inr (r, out)"
  shows "int (iterations_completed r) = maxit \<and> (\<exists>md. last out = MaxIterationsWarning md)
         \<or> int (iterations_completed r) < maxit
           \<and> last out = ConvergencePrinted (iterations_completed r)"
proof -
  from assms obtain sf k md where
    l: "solver_loop interp cb maxit tol (nat maxit) 0 (initial_state relax) = Inr sf"
    and v: "loop_vars sf = Some (k, md)"
    and r: "iterations_completed r = k + 1"
    and out: "out = (if int k = maxit - 1 then emitted sf @ [MaxIterationsWarning md]
                     else emitted sf)"
    by (auto simp: steady_state_simulation_def split: sum.splits option.splits)
  have n: "0 < nat maxit"
  proof (rule ccontr)
    assume "\<not> 0 < nat maxit"
    with l have "sf = initial_state relax" by simp
    with v show False by (simp add: initial_state_simps)
  qed
  from solver_loop_exit [OF l initial_state_simps(1) n] v
  have e: "k < nat maxit"
    "emitted sf \<noteq> [] \<and> last (emitted sf) = ConvergencePrinted (k + 1) \<or> k + 1 = nat maxit"
    by auto
  show ?thesis
  proof (cases "int k = maxit - 1")
    case True
    with out r show ?thesis by simp
  next
    case False
    with e n have "emitted sf \<noteq> [] \<and> last (emitted sf) = ConvergencePrinted (k + 1)"
      and "int (k + 1) < maxit"
      by auto
    with False out r show ?thesis by simp
  qed
qed

text \<open>The relaxation factor along the loop.\<close>

lemma solver_iteration_relaxation:
  assumes "solver_iteration interp cb maxit tol it s = Inr (b, s')"
  shows "relaxation_factor s' =
           adapt_relaxation it (snd (sweep interp s)) (prev_max_diff s) (relaxation_factor s)"
    and "prev_max_diff s' = Some (snd (sweep interp s))"
proof -
  obtain s1 md where sw: "sweep interp s = (s1, md)"
    by (cases "sweep interp s")
  have s1: "relaxation_factor s1 = relaxation_factor s" "prev_max_diff s1 = prev_max_diff s"
    using sw more_fields [of s1 s] by (auto simp: sweep_def Let_def pass_simps)
  from assms show "relaxation_factor s' =
      adapt_relaxation it (snd (sweep interp s)) (prev_max_diff s) (relaxation_factor s)"
    by (auto simp: solver_iteration_def sw s1 Let_def split: sum.splits if_splits)
  from assms show "prev_max_diff s' = Some (snd (sweep interp s))"
    by (auto simp: solver_iteration_def sw s1 Let_def split: sum.splits if_splits)
qed

lemma adapt_relaxation_le:
  "0 \<le> r \<Longrightarrow> 0 \<le> adapt_relaxation it md prev r \<and> adapt_relaxation it md prev r \<le> r"
  by (simp add: adapt_relaxation_def)

lemma solver_loop_relaxation:
  assumes "solver_loop interp cb maxit tol n it s = Inr sf" and "0 \<le> relaxation_factor s"
  shows "0 \<le> relaxation_factor sf \<and> relaxation_factor sf \<le> relaxation_factor s"
  using assms
proof (induction n arbitrary: it s)
  case 0
  then show ?case by simp
next
  case (Suc n)
  from Suc.prems(1) obtain b s1 where
    it: "solver_iteration interp cb maxit tol it s = Inr (b, s1)"
    by (auto split: sum.splits)
  from solver_iteration_relaxation(1) [OF it] adapt_relaxation_le [OF Suc.prems(2)]
  have r: "0 \<le> relaxation_factor s1" "relaxation_factor s1 \<le> relaxation_factor s"
    by simp_all
  show ?case
  proof (cases b)
    case True
    with Suc.prems(1) it have "sf = s1" by simp
    with r show ?thesis by simp
  next
    case False
    with Suc.prems(1) it have "solver_loop interp cb maxit tol n (it + 1) s1 = Inr sf"
      by simp
    from Suc.IH [OF this r(1)] r show ?thesis by simp
  qed
qed

text \<open>
  A sweep that starts with wall and coolant at one temperature: the coolant pass changes
  nothing, and the wall balance heats the last station (frozen properties).
\<close>

lemma fold_fixed:
  assumes "\<And>i. i \<in> set js \<Longrightarrow> f i s = s"
  shows "fold f js s = s"
  using assms by (induction js) simp_all

lemma coolant_station_at_wall_temperature:
  assumes "T_cooling_fluid s = replicate NUM_STATIONS c" and "T_chamber_wall s = replicate NUM_STATIONS c"
    and "i + 1 < NUM_STATIONS"
  shows "coolant_station interp i s = s"
proof -
  from assms(3) have "(replicate NUM_STATIONS c)[i + 1 := c] = replicate NUM_STATIONS c"
    by (metis list_update_id nth_replicate)
  with assms show ?thesis
    by (simp add: coolant_station_def Let_def)
qed

lemma coolant_pass_at_wall_temperature:
  assumes "T_cooling_fluid s = replicate NUM_STATIONS c" and "T_chamber_wall s = replicate NUM_STATIONS c"
  shows "coolant_pass interp s = s"
  unfolding coolant_pass_def
proof (rule fold_fixed)
  fix i assume "i \<in> set [0..<NUM_STATIONS - 1]"
  then have "i + 1 < NUM_STATIONS" by auto
  with assms show "coolant_station interp i s = s"
    by (rule coolant_station_at_wall_temperature)
qed

lemma wall_station_other:
  "j \<noteq> i \<Longrightarrow> T_chamber_wall (wall_station interp r i s) ! j = T_chamber_wall s ! j"
  by (simp add: wall_station_def Let_def)

lemma wall_pass_last_station:
  "wall_pass interp r s =
     wall_station interp r (NUM_STATIONS - 1)
       (fold (wall_station interp r) [0..<NUM_STATIONS - 1] s)"
proof -
  have "[0..<NUM_STATIONS] = [0..<NUM_STATIONS - 1] @ [NUM_STATIONS - 1]"
    using NUM_STATIONS_pos upt_Suc_append [of 0 "NUM_STATIONS - 1"] by simp
  then show ?thesis by (simp add: wall_pass_def)
qed

lemma wall_prefix_simps:
  "T_cooling_fluid (fold (wall_station interp r) js s) = T_cooling_fluid s"
  "T_chamber_fluid (fold (wall_station interp r) js s) = T_chamber_fluid s"
  "length (T_chamber_wall (fold (wall_station interp r) js s)) = length (T_chamber_wall s)"
  by (simp_all add: fold_preserves [where g = T_cooling_fluid]
      fold_preserves [where g = T_chamber_fluid]
      fold_preserves [where g = "\<lambda>s. length (T_chamber_wall s)"] wall_station_simps)

lemma wall_prefix_last:
  "T_chamber_wall (fold (wall_station interp r) [0..<NUM_STATIONS - 1] s) ! (NUM_STATIONS - 1)
   = T_chamber_wall s ! (NUM_STATIONS - 1)"
proof (rule fold_preserves [where g = "\<lambda>s. T_chamber_wall s ! (NUM_STATIONS - 1)"])
  fix i s assume "i \<in> set [0..<NUM_STATIONS - 1]"
  then have "NUM_STATIONS - 1 \<noteq> i" by auto
  then show "T_chamber_wall (wall_station interp r i s) ! (NUM_STATIONS - 1)
             = T_chamber_wall s ! (NUM_STATIONS - 1)"
    by (rule wall_station_other)
qed

lemma frozen_inconel:
  "density (inconel_properties frozen_interp T) = 8190"
  "specific_heat (inconel_properties frozen_interp T) = 435"
  by (simp_all add: inconel_properties_def frozen_interp_def inconel_cp_data_def)

lemma heater_power_last:
  "heater_power_distribution ! (NUM_STATIONS - 1) = 7 / 2"
  "heater_power_distribution ! (NUM_STATIONS - Suc 0) = 7 / 2"
  by (simp_all add: heater_power_distribution_def NUM_STATIONS_def HEATER_POWER_def)

lemma wall_station_last_balanced:
  assumes "length (T_chamber_wall s) = NUM_STATIONS"
    and "T_cooling_fluid s ! (NUM_STATIONS - 1) = T_chamber_wall s ! (NUM_STATIONS - 1)"
    and "T_chamber_fluid s ! (NUM_STATIONS - 1) = T_chamber_wall s ! (NUM_STATIONS - 1)"
  shows "T_chamber_wall (wall_station frozen_interp r (NUM_STATIONS - 1) s) ! (NUM_STATIONS - 1)
         = T_chamber_wall s ! (NUM_STATIONS - 1)
           + 7 / 2 / (8190 * (pi * (chamber_outer_radius ^ 2 - chamber_inner_radius ^ 2)
                              * (CHAMBER_HEIGHT / real NUM_STATIONS)) * 435) * r"
  using assms NUM_STATIONS_pos
  by (simp add: wall_station_def Let_def frozen_inconel heater_power_last mult_ac)

lemma max_abs_diff_ge:
  assumes "i < length xs" and "length xs = length ys"
  shows "\<bar>xs ! i - ys ! i\<bar> \<le> max_abs_diff xs ys"
proof -
  from assms have "map2 (\<lambda>x y. \<bar>x - y\<bar>) xs ys ! i = \<bar>xs ! i - ys ! i\<bar>"
    by simp
  moreover from assms have "i < length (map2 (\<lambda>x y. \<bar>x - y\<bar>) xs ys)"
    by simp
  ultimately have "\<bar>xs ! i - ys ! i\<bar> \<in> set (map2 (\<lambda>x y. \<bar>x - y\<bar>) xs ys)"
    by (metis nth_mem)
  then show ?thesis
    unfolding max_abs_diff_def by (intro Max_ge) simp_all
qed

lemma sweep_max_diff:
  "snd (sweep interp s) = max_abs_diff (T_chamber_wall (fst (sweep interp s))) (T_chamber_wall s)"
  by (simp add: sweep_def Let_def)

lemma wall_segment_heat_capacity_pos:
  "0 < 8190 * (pi * (chamber_outer_radius ^ 2 - chamber_inner_radius ^ 2)
               * (CHAMBER_HEIGHT / real NUM_STATIONS)) * 435"
  by (simp add: chamber_outer_radius_def chamber_inner_radius_def CHAMBER_INNER_DIAMETER_def
      CHAMBER_WALL_THICKNESS_def CHAMBER_HEIGHT_def NUM_STATIONS_def power2_eq_square)

lemma first_sweep_moves_the_wall:
  assumes "T_chamber_wall s = replicate NUM_STATIONS c"
    and "T_cooling_fluid s = replicate NUM_STATIONS c"
    and "length (T_chamber_fluid s) = NUM_STATIONS"
    and "0 < relaxation_factor s"
  shows "0 < snd (sweep frozen_interp s)"
proof -
  let ?k = "NUM_STATIONS - 1"
  let ?C = "8190 * (pi * (chamber_outer_radius ^ 2 - chamber_inner_radius ^ 2)
               * (CHAMBER_HEIGHT / real NUM_STATIONS)) * 435"
  let ?b = "chamber_pass frozen_interp s"
  let ?p = "fold (wall_station frozen_interp (relaxation_factor s)) [0..<NUM_STATIONS - 1] ?b"
  have k: "?k < NUM_STATIONS" using NUM_STATIONS_pos by simp
  have a: "coolant_pass frozen_interp s = s"
    using assms(2,1) by (rule coolant_pass_at_wall_temperature)
  have r: "relaxation_factor ?b = relaxation_factor s"
    using more_fields [of ?b s] by (simp add: pass_simps)
  have fst: "fst (sweep frozen_interp s)
      = wall_station frozen_interp (relaxation_factor s) ?k ?p"
    by (simp add: sweep_def Let_def a r wall_pass_last_station)
  have bw: "T_chamber_wall ?b = replicate NUM_STATIONS c" "T_cooling_fluid ?b = replicate NUM_STATIONS c"
    using assms by (simp_all add: pass_simps)
  have bl: "T_chamber_fluid ?b ! ?k = T_cooling_fluid s ! ?k"
    using assms by (intro chamber_pass_last) simp_all
  have p1: "length (T_chamber_wall ?p) = NUM_STATIONS"
    by (simp only: wall_prefix_simps bw length_replicate)
  have p2: "T_chamber_wall ?p ! ?k = c"
    using k by (simp only: wall_prefix_last bw nth_replicate)
  have p3: "T_cooling_fluid ?p ! ?k = c"
    using k by (simp only: wall_prefix_simps bw nth_replicate)
  have p4: "T_chamber_fluid ?p ! ?k = c"
    using k bl assms(2) by (simp only: wall_prefix_simps nth_replicate)
  have "T_chamber_wall (fst (sweep frozen_interp s)) ! ?k
        = c + 7 / 2 / ?C * relaxation_factor s"
    unfolding fst
    using wall_station_last_balanced [of ?p "relaxation_factor s"] p1 p2 p3 p4 by simp
  moreover have "T_chamber_wall s ! ?k = c"
    using k assms(1) by simp
  moreover have "length (T_chamber_wall (fst (sweep frozen_interp s))) = NUM_STATIONS"
    unfolding fst by (simp only: wall_station_simps p1)
  moreover have "length (T_chamber_wall s) = NUM_STATIONS"
    using assms(1) by simp
  ultimately have "\<bar>7 / 2 / ?C * relaxation_factor s\<bar> \<le> snd (sweep frozen_interp s)"
    using max_abs_diff_ge [of ?k "T_chamber_wall (fst (sweep frozen_interp s))" "T_chamber_wall s"] k
    unfolding sweep_max_diff by simp
  moreover have "0 < 7 / 2 / ?C"
    using wall_segment_heat_capacity_pos by (rule divide_pos_pos [rotated]) simp
  then have "0 < 7 / 2 / ?C * relaxation_factor s"
    using assms(4) by (rule mult_pos_pos)
  ultimately show ?thesis by linarith
qed

lemma solver_iteration_wall:
  assumes "solver_iteration interp cb maxit tol it s = Inr (b, s')"
  shows "T_chamber_wall s' = T_chamber_wall (fst (sweep interp s))"
  using assms
  by (auto simp: solver_iteration_def Let_def split: prod.splits sum.splits if_splits)

text \<open>The progress callback: a run with a callback against the run without one.\<close>

lemma station_emitted:
  "coolant_station interp i (s\<lparr>emitted := e\<rparr>) = (coolant_station interp i s)\<lparr>emitted := e\<rparr>"
  "chamber_station interp i (s\<lparr>emitted := e\<rparr>) = (chamber_station interp i s)\<lparr>emitted := e\<rparr>"
  "wall_station interp r i (s\<lparr>emitted := e\<rparr>) = (wall_station interp r i s)\<lparr>emitted := e\<rparr>"
  "chamber_inlet (s\<lparr>emitted := e\<rparr>) = (chamber_inlet s)\<lparr>emitted := e\<rparr>"
  by (simp_all add: coolant_station_def chamber_station_def wall_station_def chamber_inlet_def Let_def)

lemma pass_emitted:
  "coolant_pass interp (s\<lparr>emitted := e\<rparr>) = (coolant_pass interp s)\<lparr>emitted := e\<rparr>"
  "chamber_pass interp (s\<lparr>emitted := e\<rparr>) = (chamber_pass interp s)\<lparr>emitted := e\<rparr>"
  "wall_pass interp r (s\<lparr>emitted := e\<rparr>) = (wall_pass interp r s)\<lparr>emitted := e\<rparr>"
  unfolding coolant_pass_def chamber_pass_def wall_pass_def
  by (simp_all add: fold_commute [where h = "\<lambda>s. s\<lparr>emitted := e\<rparr>"] station_emitted)

lemma sweep_emitted:
  "sweep interp (s\<lparr>emitted := e\<rparr>) =
     (fst (sweep interp s)\<lparr>emitted := e\<rparr>, snd (sweep interp s))"
  by (simp add: sweep_def Let_def pass_emitted)

lemma sweep_emitted_same: "emitted (fst (sweep interp s)) = emitted s"
  using more_fields [of "fst (sweep interp s)" s]
  by (simp add: sweep_def Let_def pass_simps)

lemma solver_iteration_callback:
  assumes "\<forall>i d. f i maxit d = Returns \<or> (\<exists>m. f i maxit d = Raises (ExceptionInstance (Prints m)))"
  shows "\<exists>b s'. solver_iteration interp None maxit tol it s = Inr (b, s')
           \<and> solver_iteration interp (Some f) maxit tol it (s\<lparr>emitted := ev\<rparr>) =
               Inr (b, s'\<lparr>emitted := ev
                    @ CallbackCalled it maxit (snd (sweep interp s))
                    # (case f it maxit (snd (sweep interp s)) of
                         Raises (ExceptionInstance (Prints e)) \<Rightarrow> [CallbackErrorPrinted e]
                       | _ \<Rightarrow> [])
                    @ (if b then [ConvergencePrinted (it + 1)] else [])\<rparr>)"
proof -
  obtain s1 md where sw: "sweep interp s = (s1, md)"
    by (cases "sweep interp s")
  have e: "emitted s1 = emitted s"
    using sweep_emitted_same [of interp s] by (simp add: sw)
  from assms have "f it maxit md = Returns
      \<or> (\<exists>m. f it maxit md = Raises (ExceptionInstance (Prints m)))"
    by blast
  then show ?thesis
  proof
    assume "f it maxit md = Returns"
    then show ?thesis
      by (auto simp: solver_iteration_def sweep_emitted sw e call_progress_callback_def Let_def)
  next
    assume "\<exists>m. f it maxit md = Raises (ExceptionInstance (Prints m))"
    then obtain m where "f it maxit md = Raises (ExceptionInstance (Prints m))" ..
    then show ?thesis
      by (auto simp: solver_iteration_def sweep_emitted sw e call_progress_callback_def Let_def)
  qed
qed

lemma solver_loop_callback:
  assumes "\<forall>i d. f i maxit d = Returns \<or> (\<exists>m. f i maxit d = Raises (ExceptionInstance (Prints m)))"
  shows "\<exists>ev'. solver_loop interp (Some f) maxit tol n it (s\<lparr>emitted := ev\<rparr>) =
           map_sum id (\<lambda>sf. sf\<lparr>emitted := ev'\<rparr>) (solver_loop interp None maxit tol n it s)"
proof (induction n arbitrary: it s ev)
  case 0
  show ?case by (intro exI [of _ ev]) simp
next
  case (Suc n)
  from solver_iteration_callback [where f = f and maxit = maxit, OF assms, of interp tol it s ev]
  obtain b s1 ev1 where
    none: "solver_iteration interp None maxit tol it s = Inr (b, s1)"
    and some: "solver_iteration interp (Some f) maxit tol it (s\<lparr>emitted := ev\<rparr>)
               = Inr (b, s1\<lparr>emitted := ev1\<rparr>)"
    by blast
  show ?case
  proof (cases b)
    case True
    then show ?thesis by (intro exI [of _ ev1]) (simp add: none some)
  next
    case False
    with Suc [where it = "it + 1" and s = s1 and ev = ev1] show ?thesis
      by (simp add: none some)
  qed
qed

lemma callback_calls_append: "callback_calls (xs @ ys) = callback_calls xs @ callback_calls ys"
  by (induction xs rule: callback_calls.induct) simp_all

lemma solver_iteration_calls:
  assumes "solver_iteration interp (Some f) maxit tol it s = Inr (b, s')"
  shows "callback_calls (emitted s') = callback_calls (emitted s) @ [(it, maxit, snd (sweep interp s))]"
proof -
  obtain s1 md where sw: "sweep interp s = (s1, md)"
    by (cases "sweep interp s")
  have e: "emitted s1 = emitted s"
    using sweep_emitted_same [of interp s] by (simp add: sw)
  from assms show ?thesis
    by (auto simp: solver_iteration_def sw e Let_def call_progress_callback_def
        callback_calls_append
        split: sum.splits if_splits callback_outcome.splits py_exception.splits
          handler_print.splits)
qed

lemma solver_loop_calls:
  assumes "solver_loop interp (Some f) maxit tol n it s = Inr sf" and "lengths_ok s"
  shows "\<exists>j. map (\<lambda>(i, m, d). (i, m)) (callback_calls (emitted sf))
              = map (\<lambda>(i, m, d). (i, m)) (callback_calls (emitted s))
                @ map (\<lambda>i. (i, maxit)) [it..<it + j]
           \<and> (if j = 0 then sf = s else \<exists>md. loop_vars sf = Some (it + j - 1, md))"
  using assms
proof (induction n arbitrary: it s)
  case 0
  then have "sf = s" by simp
  then show ?case by (intro exI [of _ 0]) simp
next
  case (Suc n)
  from Suc.prems(1) obtain b s1 where
    it: "solver_iteration interp (Some f) maxit tol it s = Inr (b, s1)"
    by (auto split: sum.splits)
  note c = solver_iteration_calls [OF it]
  note p = solver_iteration_Inr [OF it Suc.prems(2)]
  show ?case
  proof (cases b)
    case True
    with Suc.prems(1) it have "sf = s1" by simp
    with c p(4) show ?thesis by (intro exI [of _ 1]) simp
  next
    case False
    with Suc.prems(1) it have l: "solver_loop interp (Some f) maxit tol n (it + 1) s1 = Inr sf"
      by simp
    from Suc.IH [OF l p(1)] obtain j where
      j: "map (\<lambda>(i, m, d). (i, m)) (callback_calls (emitted sf))
            = map (\<lambda>(i, m, d). (i, m)) (callback_calls (emitted s1))
              @ map (\<lambda>i. (i, maxit)) [it + 1..<it + 1 + j]"
      and v: "if j = 0 then sf = s1 else \<exists>md. loop_vars sf = Some (it + 1 + j - 1, md)"
      by blast
    have "[it..<it + Suc j] = it # [it + 1..<it + 1 + j]"
      by (simp add: upt_conv_Cons)
    with j c have "map (\<lambda>(i, m, d). (i, m)) (callback_calls (emitted sf))
              = map (\<lambda>(i, m, d). (i, m)) (callback_calls (emitted s))
                @ map (\<lambda>i. (i, maxit)) [it..<it + Suc j]"
      by simp
    moreover from v p(4) have "\<exists>md. loop_vars sf = Some (it + Suc j - 1, md)"
      by (cases "j = 0") auto
    ultimately show ?thesis by (intro exI [of _ "Suc j"]) simp
  qed
qed

lemma initial_state_emitted: "emitted (initial_state r) = []"
  by (simp add: initial_state_def)

lemma steady_state_simulation_calls:
  assumes "steady_state_simulation interp (Some f) maxit tol relax = Inr (r, out)"
  shows "map (\<lambda>(i, m, d). (i, m)) (callback_calls out)
         = map (\<lambda>i. (i, maxit)) [0..<iterations_completed r]"
proof -
  from assms obtain sf k md where
    l: "solver_loop interp (Some f) maxit tol (nat maxit) 0 (initial_state relax) = Inr sf"
    and v: "loop_vars sf = Some (k, md)"
    and r: "iterations_completed r = k + 1"
    and out: "out = emitted sf \<or> out = emitted sf @ [MaxIterationsWarning md]"
    by (auto simp: steady_state_simulation_def split: sum.splits option.splits if_splits)
  from solver_loop_calls [OF l initial_state_simps(1)] obtain j where
    j0: "map (\<lambda>(i, m, d). (i, m)) (callback_calls (emitted sf))
          = map (\<lambda>(i, m, d). (i, m)) (callback_calls (emitted (initial_state relax)))
            @ map (\<lambda>i. (i, maxit)) [0..<0 + j]"
    and w0: "if j = 0 then sf = initial_state relax
             else \<exists>md. loop_vars sf = Some (0 + j - 1, md)"
    by blast
  from j0 have j: "map (\<lambda>(i, m, d). (i, m)) (callback_calls (emitted sf))
          = map (\<lambda>i. (i, maxit)) [0..<j]"
    by (simp add: initial_state_emitted)
  from w0 have w: "if j = 0 then sf = initial_state relax
                   else \<exists>md. loop_vars sf = Some (j - 1, md)"
    by (cases "j = 0") simp_all
  from w v have "j = k + 1"
    by (cases "j = 0") (auto simp: initial_state_simps)
  moreover from out have "callback_calls out = callback_calls (emitted sf)"
    by (auto simp: callback_calls_append)
  ultimately show ?thesis using j r by simp
qed

lemma steady_state_simulation_callback:
  assumes "\<forall>i d. f i maxit d = Returns \<or> (\<exists>m. f i maxit d = Raises (ExceptionInstance (Prints m)))"
  shows "map_sum id fst (steady_state_simulation interp (Some f) maxit tol relax)
         = map_sum id fst (steady_state_simulation interp None maxit tol relax)"
proof -
  have i: "initial_state relax = (initial_state relax)\<lparr>emitted := []\<rparr>"
    by (simp add: initial_state_def)
  from assms have "\<exists>ev'.
      solver_loop interp (Some f) maxit tol (nat maxit) 0 ((initial_state relax)\<lparr>emitted := []\<rparr>) =
       map_sum id (\<lambda>sf. sf\<lparr>emitted := ev'\<rparr>)
         (solver_loop interp None maxit tol (nat maxit) 0 (initial_state relax))"
    by (rule solver_loop_callback)
  then obtain ev' where
    "solver_loop interp (Some f) maxit tol (nat maxit) 0 (initial_state relax) =
       map_sum id (\<lambda>sf. sf\<lparr>emitted := ev'\<rparr>)
         (solver_loop interp None maxit tol (nat maxit) 0 (initial_state relax))"
    using i by auto
  then show ?thesis
    by (auto simp: steady_state_simulation_def split: sum.splits option.splits)
qed

subsection \<open>Claims about the outer loop\<close>

text \<open>
  On finite values, every run that returns has executed at least one iteration, and the
  chamber fluid's last station holds the coolant's last station: the chamber pass of each
  iteration copies it there, the rest of the chamber pass writes stations \<open>N - 2\<close> down to
  \<open>0\<close> only, and the wall balance writes neither array.
\<close>

lemma last_station_copied:
  assumes "steady_state_simulation interp progress_callback max_iterations tolerance relaxation
           = Inr (r, out)"
  shows "1 \<le> iterations_completed r
         \<and> length (T_chamber_fluid r) = NUM_STATIONS \<and> length (T_cooling_fluid r) = NUM_STATIONS
         \<and> T_chamber_fluid r ! (NUM_STATIONS - 1) = T_cooling_fluid r ! (NUM_STATIONS - 1)"
  using steady_state_simulation_Inr [OF assms] by (simp add: lengths_ok_def)

text \<open>
  Claim C10. Whatever the number of iterations, the returned coolant array holds
  \<open>INITIAL_TEMP\<close> (300 K) at station 0: the coolant pass writes stations 1 to \<open>N - 1\<close>
  only, and no other phase writes the coolant array.
\<close>

theorem coolant_inlet_untouched:
  assumes "steady_state_simulation interp progress_callback max_iterations tolerance relaxation
           = Inr (r, out)"
  shows "T_cooling_fluid r ! 0 = INITIAL_TEMP \<and> INITIAL_TEMP = 300"
  using steady_state_simulation_Inr [OF assms] by (simp add: INITIAL_TEMP_def)

text \<open>The default run (2000 iterations at most, no callback) returns with 300 K at station 0.\<close>

theorem coolant_inlet_untouched_witness:
  "case steady_state_simulation frozen_interp None 2000 0.5 0.05 of
     Inl e \<Rightarrow> False
   | Inr (r, out) \<Rightarrow> T_cooling_fluid r ! 0 = 300"
proof -
  from steady_state_simulation_returns [of 2000 None frozen_interp "0.5" "0.05"]
  obtain r out where
    run: "steady_state_simulation frozen_interp None 2000 0.5 0.05 = Inr (r, out)"
    by auto
  from coolant_inlet_untouched [OF run] show ?thesis
    unfolding run by simp
qed

text \<open>
  Claim C4. The claim says that the solver always returns its arrays and the number of
  iterations. With \<open>max_iterations = 0\<close> the loop body never runs, and line 380 reads
  the unbound loop variable: the call raises \<open>UnboundLocalError\<close> instead of returning.
  For \<open>max_iterations > 0\<close> and a callback that lets nothing escape the solver does
  return, after at most that many iterations (\<open>steady_state_simulation_returns\<close>), and
  it leaves the loop on the first max-diff below the tolerance or prints the warning after
  the last iteration (\<open>steady_state_simulation_exit\<close>).
\<close>

theorem zero_iterations_raise:
  "steady_state_simulation interp progress_callback 0 tolerance relaxation = Inl UnboundLocalError"
  by (simp add: steady_state_simulation_def initial_state_simps)

text \<open>
  Claim C6, as stated, fails for a negative relaxation factor: the only update of the
  factor is the multiplication by 0.95 of line 371, and it makes a negative factor larger.
  The update at iteration 1 with \<open>max_diff = 2\<close> after \<open>prev_max_diff = 1\<close> turns
  \<open>-1\<close> into \<open>-0.95\<close>.
\<close>

theorem negative_relaxation_factor_grows:
  "\<not> adapt_relaxation 1 2 (Some 1) (- 1) \<le> - 1"
  by (simp add: adapt_relaxation_def exceeds_def)

text \<open>
  Claim C6, amended. Take any iteration that starts with a relaxation factor that is not
  negative, and let \<open>max_diff\<close> be the largest absolute change of the wall array over
  this iteration. The factor is multiplied by 0.95 exactly when this is not the first
  iteration and \<open>max_diff\<close> exceeds the max-diff that the previous iteration left in
  \<open>prev_max_diff\<close>, and it is unchanged otherwise; \<open>max_diff\<close> is what the next
  iteration finds in \<open>prev_max_diff\<close>. So the factor does not increase, it stays
  non-negative for the next iteration, and no later iteration of the loop brings it above
  the value it has now.
\<close>

theorem relaxation_factor_non_increasing:
  fixes s s' :: solver_state
  defines "max_diff \<equiv> Max (set (map2 (\<lambda>x y. \<bar>x - y\<bar>) (T_chamber_wall s') (T_chamber_wall s)))"
  assumes "0 \<le> relaxation_factor s"
    and "solver_iteration interp progress_callback max_iterations tolerance iteration s
         = Inr (left_by_break, s')"
  shows "relaxation_factor s' =
           (if 0 < iteration \<and> (\<exists>previous. prev_max_diff s = Some previous \<and> previous < max_diff)
            then relaxation_factor s * 0.95 else relaxation_factor s)
         \<and> prev_max_diff s' = Some max_diff
         \<and> 0 \<le> relaxation_factor s' \<and> relaxation_factor s' \<le> relaxation_factor s
         \<and> (\<forall>n sf. solver_loop interp progress_callback max_iterations tolerance n
                      (iteration + 1) s' = Inr sf
                    \<longrightarrow> relaxation_factor sf \<le> relaxation_factor s')"
proof -
  note p = solver_iteration_relaxation [OF assms(3)]
  have md: "snd (sweep interp s) = max_diff"
    unfolding max_diff_def sweep_max_diff solver_iteration_wall [OF assms(3)] max_abs_diff_def ..
  have e: "exceeds max_diff (prev_max_diff s)
           = (\<exists>previous. prev_max_diff s = Some previous \<and> previous < max_diff)"
    by (cases "prev_max_diff s") (simp_all add: exceeds_def)
  from p(1) have a: "relaxation_factor s' =
           (if 0 < iteration \<and> (\<exists>previous. prev_max_diff s = Some previous \<and> previous < max_diff)
            then relaxation_factor s * 0.95 else relaxation_factor s)"
    unfolding md adapt_relaxation_def e .
  from p(1) adapt_relaxation_le [OF assms(2)]
  have r: "0 \<le> relaxation_factor s'" "relaxation_factor s' \<le> relaxation_factor s"
    by simp_all
  have "\<forall>n sf. solver_loop interp progress_callback max_iterations tolerance n
                      (iteration + 1) s' = Inr sf
                    \<longrightarrow> relaxation_factor sf \<le> relaxation_factor s'"
    using solver_loop_relaxation [OF _ r(1)] by blast
  with a p(2) [unfolded md] r show ?thesis by blast
qed

text \<open>
  An iteration after the first, entered with all three arrays at 300 K, the factor at 0.05
  and a previous max-diff of 0: the wall of the last station heats up, the max-diff
  exceeds the previous one, and the factor shrinks to 0.0475.
\<close>

theorem relaxation_factor_non_increasing_witness:
  "0 \<le> relaxation_factor ((initial_state (1 / 20))\<lparr>prev_max_diff := Some 0\<rparr>)
   \<and> (case solver_iteration frozen_interp None 2000 (1 / 2) 1
              ((initial_state (1 / 20))\<lparr>prev_max_diff := Some 0\<rparr>) of
        Inl e \<Rightarrow> False
      | Inr (left_by_break, s') \<Rightarrow>
          relaxation_factor s' = 1 / 20 * (95 / 100) \<and> relaxation_factor s' < 1 / 20)"
proof -
  let ?s = "(initial_state (1 / 20))\<lparr>prev_max_diff := Some 0\<rparr>"
  have h: "0 \<le> relaxation_factor ?s"
    by (simp add: initial_state_def)
  from solver_iteration_total [of None 2000 frozen_interp "1 / 2" 1 ?s]
  obtain b s' where
    it: "solver_iteration frozen_interp None 2000 (1 / 2) 1 ?s = Inr (b, s')"
    by auto
  have "0 < snd (sweep frozen_interp ?s)"
    by (rule first_sweep_moves_the_wall [where c = INITIAL_TEMP])
       (simp_all add: initial_state_def)
  then have m: "0 < Max (set (map2 (\<lambda>x y. \<bar>x - y\<bar>) (T_chamber_wall s') (T_chamber_wall ?s)))"
    unfolding sweep_max_diff solver_iteration_wall [OF it] max_abs_diff_def .
  have v: "prev_max_diff ?s = Some 0" by simp
  from relaxation_factor_non_increasing [OF h it] m
  have "relaxation_factor s' = relaxation_factor ?s * 0.95"
    unfolding v by simp
  then have "relaxation_factor s' = 1 / 20 * (95 / 100)"
    by (simp add: initial_state_def)
  with h show ?thesis
    unfolding it by simp
qed


text \<open>
  Claim C7, as stated, fails for an exception that is not an instance of \<open>Exception\<close>:
  \<open>except Exception\<close> does not catch it, and it leaves the solver. A callback that
  raises \<open>SystemExit\<close> aborts the default run in its first iteration.
\<close>

theorem base_exception_escapes:
  "steady_state_simulation frozen_interp
     (Some (\<lambda>iteration max_iterations max_diff. Raises (OtherBaseException ''SystemExit'')))
     2000 0.5 0.05
   = Inl (CallbackRaised (OtherBaseException ''SystemExit''))"
proof -
  have n: "nat 2000 = Suc 1999" by simp
  have "solver_loop frozen_interp
          (Some (\<lambda>iteration max_iterations max_diff. Raises (OtherBaseException ''SystemExit'')))
          2000 0.5 (Suc 1999) 0 (initial_state 0.05)
        = Inl (OtherBaseException ''SystemExit'')"
    by (subst solver_loop.simps)
       (simp add: solver_iteration_def call_progress_callback_def split: prod.splits)
  then show ?thesis
    unfolding steady_state_simulation_def n by simp
qed

text \<open>
  An instance of \<open>Exception\<close> leaves the solver as well when the handler cannot print it:
  line 367 formats the exception into the message, and what its \<open>__str__\<close> raises there is
  raised inside the \<open>except\<close> block, which no other \<open>try\<close> encloses.
\<close>

lemma handler_failure_escapes:
  "call_progress_callback (Some (\<lambda>iteration max_iterations max_diff.
       Raises (ExceptionInstance (PrintRaises e)))) iteration max_iterations max_diff
   = Inl e"
  by (simp add: call_progress_callback_def)

text \<open>
  Claim C7, amended. Let the supplied callback raise nothing but instances of
  \<open>Exception\<close> that the handler formats and prints without raising. Then the run returns
  the same arrays and iteration count (or fails in the same way) as the run without a
  callback; the callback is called once in each iteration, in order, with the iteration
  index and \<open>max_iterations\<close>; and each iteration ends in the state and with the \<open>break\<close>
  decision of the iteration without a callback, having emitted the call with that
  iteration's max-diff as third argument, followed by the printed error when the call
  raised.
\<close>

theorem callback_failure_contained:
  assumes "\<forall>i d. f i max_iterations d = Returns
             \<or> (\<exists>m. f i max_iterations d = Raises (ExceptionInstance (Prints m)))"
  shows "map_sum id fst
           (steady_state_simulation interp (Some f) max_iterations tolerance relaxation)
         = map_sum id fst
             (steady_state_simulation interp None max_iterations tolerance relaxation)
       \<and> (\<forall>r out. steady_state_simulation interp (Some f) max_iterations tolerance relaxation
                     = Inr (r, out)
            \<longrightarrow> map (\<lambda>(i, m, d). (i, m)) (callback_calls out)
                = map (\<lambda>i. (i, max_iterations)) [0..<iterations_completed r])
       \<and> (\<forall>iteration s. \<exists>left_by_break s'.
             solver_iteration interp None max_iterations tolerance iteration s
               = Inr (left_by_break, s')
           \<and> solver_iteration interp (Some f) max_iterations tolerance iteration s
               = Inr (left_by_break, s'\<lparr>emitted := emitted s
                    @ CallbackCalled iteration max_iterations (snd (sweep interp s))
                    # (case f iteration max_iterations (snd (sweep interp s)) of
                         Raises (ExceptionInstance (Prints e)) \<Rightarrow> [CallbackErrorPrinted e]
                       | _ \<Rightarrow> [])
                    @ (if left_by_break then [ConvergencePrinted (iteration + 1)] else [])\<rparr>))"
proof (intro conjI allI impI)
  show "map_sum id fst
           (steady_state_simulation interp (Some f) max_iterations tolerance relaxation)
         = map_sum id fst
             (steady_state_simulation interp None max_iterations tolerance relaxation)"
    using assms by (rule steady_state_simulation_callback)
next
  fix r out
  assume "steady_state_simulation interp (Some f) max_iterations tolerance relaxation
            = Inr (r, out)"
  then show "map (\<lambda>(i, m, d). (i, m)) (callback_calls out)
                = map (\<lambda>i. (i, max_iterations)) [0..<iterations_completed r]"
    by (rule steady_state_simulation_calls)
next
  fix iteration s
  from solver_iteration_callback [where f = f and maxit = max_iterations, OF assms,
      of interp tolerance iteration s "emitted s"]
  show "\<exists>left_by_break s'.
             solver_iteration interp None max_iterations tolerance iteration s
               = Inr (left_by_break, s')
           \<and> solver_iteration interp (Some f) max_iterations tolerance iteration s
               = Inr (left_by_break, s'\<lparr>emitted := emitted s
                    @ CallbackCalled iteration max_iterations (snd (sweep interp s))
                    # (case f iteration max_iterations (snd (sweep interp s)) of
                         Raises (ExceptionInstance (Prints e)) \<Rightarrow> [CallbackErrorPrinted e]
                       | _ \<Rightarrow> [])
                    @ (if left_by_break then [ConvergencePrinted (iteration + 1)] else [])\<rparr>)"
    by simp
qed

text \<open>A callback that raises an \<open>Exception\<close> at every call, in a run of three iterations.\<close>

theorem callback_failure_contained_witness:
  "(\<forall>i d. (\<lambda>iteration max_iterations max_diff. Raises (ExceptionInstance (Prints ''boom'')))
             i (3::int) (d::real) = Returns
         \<or> (\<exists>m. (\<lambda>iteration max_iterations max_diff. Raises (ExceptionInstance (Prints ''boom'')))
                   (i::nat) (3::int) (d::real) = Raises (ExceptionInstance (Prints m))))
   \<and> (case steady_state_simulation frozen_interp
              (Some (\<lambda>iteration max_iterations max_diff.
                       Raises (ExceptionInstance (Prints ''boom''))))
              3 (1 / 2) (1 / 20) of
        Inl e \<Rightarrow> False
      | Inr (r, out) \<Rightarrow>
          Inr r = map_sum id fst (steady_state_simulation frozen_interp None 3 (1 / 2) (1 / 20))
          \<and> map (\<lambda>(i, m, d). (i, m)) (callback_calls out)
              = map (\<lambda>i. (i, 3)) [0..<iterations_completed r])"
proof -
  let ?f = "\<lambda>(iteration::nat) (max_iterations::int) (max_diff::real).
              Raises (ExceptionInstance (Prints ''boom''))"
  have h: "\<forall>i d. ?f i 3 d = Returns \<or> (\<exists>m. ?f i 3 d = Raises (ExceptionInstance (Prints m)))"
    by simp
  from steady_state_simulation_returns [of 3 "Some ?f" frozen_interp "1 / 2" "1 / 20"]
  obtain r out where
    run: "steady_state_simulation frozen_interp (Some ?f) 3 (1 / 2) (1 / 20) = Inr (r, out)"
    by auto
  note t = callback_failure_contained [OF h, where interp = frozen_interp
      and tolerance = "1 / 2" and relaxation = "1 / 20"]
  from t have "map_sum id fst (steady_state_simulation frozen_interp (Some ?f) 3 (1 / 2) (1 / 20))
      = map_sum id fst (steady_state_simulation frozen_interp None 3 (1 / 2) (1 / 20))"
    by blast
  then have a: "Inr r = map_sum id fst (steady_state_simulation frozen_interp None 3 (1 / 2) (1 / 20))"
    unfolding run by simp
  from t run have b: "map (\<lambda>(i, m, d). (i, m)) (callback_calls out)
              = map (\<lambda>i. (i, 3)) [0..<iterations_completed r]"
    by blast
  from a b h show ?thesis
    unfolding run by simp
qed

subsection \<open>Flow parameters and correlations\<close>

lemma colebrook_loop_char:
  "\<exists>k\<le>n. colebrook_loop n r h re f0 = (colebrook_step r h re ^^ k) f0
     \<and> (\<forall>j<k. \<not> \<bar>colebrook_step r h re ((colebrook_step r h re ^^ j) f0)
                    - (colebrook_step r h re ^^ j) f0\<bar> < 0.000001)
     \<and> (k < n \<longrightarrow> \<bar>colebrook_step r h re ((colebrook_step r h re ^^ k) f0)
                    - (colebrook_step r h re ^^ k) f0\<bar> < 0.000001)"
proof (induction n arbitrary: f0)
  case 0
  show ?case by simp
next
  case (Suc n)
  let ?g = "colebrook_step r h re"
  show ?case
  proof (cases "\<bar>?g f0 - f0\<bar> < 0.000001")
    case True
    then show ?thesis by (intro exI [of _ 0]) (simp add: Let_def)
  next
    case False
    from Suc [of "?g f0"] obtain k where
      k: "k \<le> n" "colebrook_loop n r h re (?g f0) = (?g ^^ k) (?g f0)"
      "\<forall>j<k. \<not> \<bar>?g ((?g ^^ j) (?g f0)) - (?g ^^ j) (?g f0)\<bar> < 0.000001"
      "k < n \<longrightarrow> \<bar>?g ((?g ^^ k) (?g f0)) - (?g ^^ k) (?g f0)\<bar> < 0.000001"
      by blast
    have sw: "(?g ^^ j) (?g f0) = (?g ^^ Suc j) f0" for j
      by (simp add: funpow_swap1)
    have "\<forall>j<Suc k. \<not> \<bar>?g ((?g ^^ j) f0) - (?g ^^ j) f0\<bar> < 0.000001"
    proof (intro allI impI)
      fix j assume "j < Suc k"
      show "\<not> \<bar>?g ((?g ^^ j) f0) - (?g ^^ j) f0\<bar> < 0.000001"
      proof (cases j)
        case 0
        with False show ?thesis by simp
      next
        case (Suc i)
        with \<open>j < Suc k\<close> k(3) have "\<not> \<bar>?g ((?g ^^ i) (?g f0)) - (?g ^^ i) (?g f0)\<bar> < 0.000001"
          by simp
        then show ?thesis unfolding sw Suc .
      qed
    qed
    moreover from False k(2) have "colebrook_loop (Suc n) r h re f0 = (?g ^^ Suc k) f0"
      by (simp add: Let_def funpow_swap1)
    moreover from k(4) have "Suc k < Suc n \<longrightarrow>
        \<bar>?g ((?g ^^ Suc k) f0) - (?g ^^ Suc k) f0\<bar> < 0.000001"
      unfolding sw by simp
    ultimately show ?thesis using k(1) by (intro exI [of _ "Suc k"]) blast
  qed
qed

lemma calculate_flow_parameters_fields:
  "flow_velocity (calculate_flow_parameters interp T area mass_flow pressure)
     = mass_flow / (density (hydrogen_properties interp T) * area)"
  "flow_reynolds (calculate_flow_parameters interp T area mass_flow pressure)
     = density (hydrogen_properties interp T)
       * (mass_flow / (density (hydrogen_properties interp T) * area))
       * fst (duct_constants area) / viscosity (hydrogen_properties interp T)"
  "flow_friction_factor (calculate_flow_parameters interp T area mass_flow pressure)
     = (let reynolds = flow_reynolds (calculate_flow_parameters interp T area mass_flow pressure)
        in if reynolds > 4000
           then colebrook_loop 10 (snd (duct_constants area)) (fst (duct_constants area)) reynolds
                  (friction_correlation reynolds)
           else friction_correlation reynolds)"
  by (simp_all add: calculate_flow_parameters_def Let_def split: prod.splits)

lemma chamber_inner_area_pos: "0 < chamber_inner_area"
  by (simp add: chamber_inner_area_def)

text \<open>Everything \<open>calculate_flow_parameters\<close> returns, written out.\<close>

lemma calculate_flow_parameters_explicit:
  fixes interp :: interp1d and T area mass_flow pressure :: real
  defines "rho \<equiv> density (hydrogen_properties interp T)"
    and "mu \<equiv> viscosity (hydrogen_properties interp T)"
    and "diameter \<equiv> (if area = chamber_inner_area then CHAMBER_INNER_DIAMETER
                       else 2 * COOLING_GAP)"
    and "roughness \<equiv> (if area = chamber_inner_area then CHAMBER_ROUGHNESS
                        else COOLING_ROUGHNESS)"
  defines "re \<equiv> rho * (mass_flow / (rho * area)) * diameter / mu"
  defines "refine \<equiv> \<lambda>f. (1 / (- 2 * log 10 (roughness / (3.7 * diameter)
                                                 + 2.51 / (re * sqrt f)))) ^ 2"
  shows "flow_velocity (calculate_flow_parameters interp T area mass_flow pressure)
           = mass_flow / (rho * area)"
    and "flow_reynolds (calculate_flow_parameters interp T area mass_flow pressure) = re"
    and "\<not> re > 4000 \<Longrightarrow>
           flow_friction_factor (calculate_flow_parameters interp T area mass_flow pressure)
           = (if re < 2300 then 64 / re else 0.316 * re powr (- 0.25))"
    and "re > 4000 \<Longrightarrow>
           \<exists>k\<le>10.
             flow_friction_factor (calculate_flow_parameters interp T area mass_flow pressure)
               = (refine ^^ k) (0.316 * re powr (- 0.25))
             \<and> (\<forall>j<k. \<not> \<bar>refine ((refine ^^ j) (0.316 * re powr (- 0.25)))
                            - (refine ^^ j) (0.316 * re powr (- 0.25))\<bar> < 0.000001)
             \<and> (k < 10 \<longrightarrow> \<bar>refine ((refine ^^ k) (0.316 * re powr (- 0.25)))
                            - (refine ^^ k) (0.316 * re powr (- 0.25))\<bar> < 0.000001)"
proof -
  let ?p = "calculate_flow_parameters interp T area mass_flow pressure"
  have d: "fst (duct_constants area) = diameter" "snd (duct_constants area) = roughness"
    by (simp_all add: duct_constants_def diameter_def roughness_def)
  show v: "flow_velocity ?p = mass_flow / (rho * area)"
    by (simp add: calculate_flow_parameters_fields rho_def)
  show r: "flow_reynolds ?p = re"
    by (simp add: calculate_flow_parameters_fields d re_def rho_def mu_def)
  have f: "flow_friction_factor ?p =
      (if re > 4000 then colebrook_loop 10 roughness diameter re (friction_correlation re)
       else friction_correlation re)"
    by (subst calculate_flow_parameters_fields(3)) (simp add: Let_def r d)
  show "flow_friction_factor ?p = (if re < 2300 then 64 / re else 0.316 * re powr (- 0.25))"
    if "\<not> re > 4000"
    using that by (simp add: f friction_correlation_def)
  show "\<exists>k\<le>10. flow_friction_factor ?p = (refine ^^ k) (0.316 * re powr (- 0.25))
          \<and> (\<forall>j<k. \<not> \<bar>refine ((refine ^^ j) (0.316 * re powr (- 0.25)))
                         - (refine ^^ j) (0.316 * re powr (- 0.25))\<bar> < 0.000001)
          \<and> (k < 10 \<longrightarrow> \<bar>refine ((refine ^^ k) (0.316 * re powr (- 0.25)))
                         - (refine ^^ k) (0.316 * re powr (- 0.25))\<bar> < 0.000001)"
    if "re > 4000"
  proof -
    have s: "colebrook_step roughness diameter re = refine"
      unfolding refine_def by (rule ext) (simp add: colebrook_step_def)
    from that have "flow_friction_factor ?p
        = colebrook_loop 10 roughness diameter re (0.316 * re powr (- 0.25))"
      by (simp add: f friction_correlation_def)
    with colebrook_loop_char [of 10 roughness diameter re "0.316 * re powr (- 0.25)"]
    show ?thesis unfolding s by simp
  qed
qed

lemma frozen_hydrogen:
  "density (hydrogen_properties frozen_interp T) = 0.8"
  "viscosity (hydrogen_properties frozen_interp T) = 0.0000089"
  "specific_heat (hydrogen_properties frozen_interp T) = 14300"
  "thermal_conductivity (hydrogen_properties frozen_interp T) = 0.18"
  by (simp_all add: hydrogen_properties_def frozen_interp_def hydrogen_rho_data_def
      hydrogen_mu_data_def hydrogen_cp_data_def hydrogen_k_data_def)

text \<open>Bounds on fractional powers from integer powers.\<close>

lemma powr_ratio_less:
  fixes x y :: real
  assumes "0 < x" "0 < y" "0 < q" "x ^ p < y ^ q"
  shows "x powr (real p / real q) < y"
proof -
  have "x powr (real p / real q) = (x powr real p) powr (1 / real q)"
    by (simp add: powr_powr)
  also have "\<dots> = (x ^ p) powr (1 / real q)"
    using assms(1) by (simp add: powr_realpow)
  also have "\<dots> < (y ^ q) powr (1 / real q)"
    using assms by (intro powr_less_mono2) simp_all
  also have "\<dots> = (y powr real q) powr (1 / real q)"
    using assms(2) by (simp add: powr_realpow)
  also have "\<dots> = y"
    using assms by (simp add: powr_powr)
  finally show ?thesis .
qed

lemma powr_ratio_greater:
  fixes x y :: real
  assumes "0 < x" "0 < y" "0 < q" "y ^ q < x ^ p"
  shows "y < x powr (real p / real q)"
proof -
  have "y = (y powr real q) powr (1 / real q)"
    using assms by (simp add: powr_powr)
  also have "\<dots> = (y ^ q) powr (1 / real q)"
    using assms(2) by (simp add: powr_realpow)
  also have "\<dots> < (x ^ p) powr (1 / real q)"
    using assms by (intro powr_less_mono2) simp_all
  also have "\<dots> = (x powr real p) powr (1 / real q)"
    using assms(1) by (simp add: powr_realpow)
  also have "\<dots> = x powr (real p / real q)"
    by (simp add: powr_powr)
  finally show ?thesis .
qed


lemma quarter_power_2301:
  "(2301::real) powr (real 1 / real 4) < 7"
  "(6.9::real) < 2301 powr (real 1 / real 4)"
proof -
  show "(2301::real) powr (real 1 / real 4) < 7"
    by (rule powr_ratio_less) simp_all
  show "(6.9::real) < 2301 powr (real 1 / real 4)"
    by (rule powr_ratio_greater) (simp_all add: power_divide)
qed

lemma blasius_exponent: "(x::real) powr (- 0.25) = 1 / x powr (real 1 / real 4)"
proof -
  have "(- 0.25 :: real) = - (real 1 / real 4)" by simp
  then show ?thesis by (simp only: powr_minus_divide)
qed

lemma blasius_2301_bounds:
  "(0.316 :: real) / 7 < 0.316 * 2301 powr (- 0.25)"
  "(0.316 :: real) * 2301 powr (- 0.25) < 0.316 / 6.9"
proof -
  let ?r = "(2301::real) powr (real 1 / real 4)"
  have p: "0 < ?r" by simp
  from quarter_power_2301(1) p have "1 / 7 < 1 / ?r"
    by (intro divide_strict_left_mono) simp_all
  then have "0.316 * (1 / 7) < 0.316 * (1 / ?r)"
    by (intro mult_strict_left_mono) simp_all
  then show "(0.316 :: real) / 7 < 0.316 * 2301 powr (- 0.25)"
    unfolding blasius_exponent by simp
  from quarter_power_2301(2) have "1 / ?r < 1 / 6.9"
    by (intro divide_strict_left_mono) simp_all
  then have "0.316 * (1 / ?r) < 0.316 * (1 / 6.9)"
    by (intro mult_strict_left_mono) simp_all
  then show "(0.316 :: real) * 2301 powr (- 0.25) < 0.316 / 6.9"
    unfolding blasius_exponent by simp
qed

lemma friction_values:
  "friction_correlation 2299 = 64 / 2299"
  "friction_correlation 2300 = 0.316 * 2300 powr (- 0.25)"
  "friction_correlation 2301 = 0.316 * 2301 powr (- 0.25)"
  by (simp_all add: friction_correlation_def)

lemma friction_jump:
  "0.017 < friction_correlation 2301 - friction_correlation 2299"
  "friction_correlation 2301 - friction_correlation 2299 < 0.018"
proof -
  have "(0.017::real) + 64 / 2299 < 0.316 / 7" by simp
  with blasius_2301_bounds(1)
  show "0.017 < friction_correlation 2301 - friction_correlation 2299"
    unfolding friction_values by linarith
  have "(0.316::real) / 6.9 < 0.018 + 64 / 2299" by simp
  with blasius_2301_bounds(2)
  show "friction_correlation 2301 - friction_correlation 2299 < 0.018"
    unfolding friction_values by linarith
qed

lemma blasius_2300_lower: "(0.316 :: real) / 7 < friction_correlation 2300"
proof -
  let ?r = "(2300::real) powr (real 1 / real 4)"
  have u: "?r < 7"
    by (rule powr_ratio_less) simp_all
  have p: "0 < ?r" by simp
  from u p have "1 / 7 < 1 / ?r"
    by (intro divide_strict_left_mono) simp_all
  then have "0.316 * (1 / 7) < 0.316 * (1 / ?r)"
    by (intro mult_strict_left_mono) simp_all
  then show ?thesis
    unfolding friction_values blasius_exponent by simp
qed

lemma friction_not_continuous: "\<not> isCont friction_correlation 2300"
proof
  assume "isCont friction_correlation 2300"
  then have "(friction_correlation \<longlongrightarrow> friction_correlation 2300) (at 2300)"
    by (simp add: isCont_def)
  then have a: "(friction_correlation \<longlongrightarrow> friction_correlation 2300) (at_left 2300)"
    by (rule filterlim_mono) (simp_all add: at_le)
  have "((\<lambda>x::real. 64 / x) \<longlongrightarrow> 64 / 2300) (at_left 2300)"
    by (intro tendsto_intros) simp_all
  moreover have "eventually (\<lambda>x. 64 / x = friction_correlation x) (at_left 2300)"
    unfolding eventually_at_left_field
    by (intro exI [of _ 2299]) (simp add: friction_correlation_def)
  ultimately have b: "(friction_correlation \<longlongrightarrow> 64 / 2300) (at_left 2300)"
    by (rule Lim_transform_eventually)
  have "friction_correlation 2300 = 64 / 2300"
    by (rule tendsto_unique [OF _ a b]) simp
  moreover have "(64::real) / 2300 < 0.316 / 7" by simp
  ultimately show False
    using blasius_2300_lower by linarith
qed

text \<open>
  The Nusselt number on both sides of the switch, for the chamber bore and the Prandtl
  number \<open>cp * mu / k\<close> of the hydrogen table at 300 K.
\<close>

lemma nusselt_laminar_2299:
  "15.6 < nusselt_correlation CHAMBER_INNER_DIAMETER 2299 (14300 * 0.0000089 / 0.18)"
proof -
  let ?X = "29259373 / 36000 :: real"
  have X: "(CHAMBER_INNER_DIAMETER / CHAMBER_HEIGHT) * 2299 * (14300 * 0.0000089 / 0.18) = ?X"
    by (simp add: CHAMBER_INNER_DIAMETER_def CHAMBER_HEIGHT_def)
  have u: "?X powr (real 2 / real 3) < 88"
    by (rule powr_ratio_less) (simp_all add: power_divide)
  have e: "nusselt_correlation CHAMBER_INNER_DIAMETER 2299 (14300 * 0.0000089 / 0.18)
           = 3.66 + 0.0668 * ?X / (1 + 0.04 * ?X powr (real 2 / real 3))"
    unfolding nusselt_correlation_def
    by (simp add: CHAMBER_INNER_DIAMETER_def CHAMBER_HEIGHT_def)
  have p: "0 \<le> ?X powr (real 2 / real 3)" by simp
  from u have "1 + 0.04 * ?X powr (real 2 / real 3) < 4.52" by simp
  moreover from p have "0 < 1 + 0.04 * ?X powr (real 2 / real 3)"
    by (intro add_pos_nonneg mult_nonneg_nonneg) simp_all
  ultimately have "0.0668 * ?X / 4.52 < 0.0668 * ?X / (1 + 0.04 * ?X powr (real 2 / real 3))"
    by (intro divide_strict_left_mono mult_pos_pos) simp_all
  moreover have "(15.6::real) < 3.66 + 0.0668 * ?X / 4.52" by simp
  ultimately show ?thesis unfolding e by linarith
qed

lemma nusselt_turbulent_2301:
  "nusselt_correlation CHAMBER_INNER_DIAMETER 2301 (14300 * 0.0000089 / 0.18) < 11.5"
proof -
  let ?pr = "14300 * 0.0000089 / 0.18 :: real"
  have e: "nusselt_correlation CHAMBER_INNER_DIAMETER 2301 ?pr
           = 0.023 * 2301 powr (real 4 / real 5) * ?pr powr (real 2 / real 5)"
    unfolding nusselt_correlation_def by simp
  have u: "(2301::real) powr (real 4 / real 5) < 500"
    by (rule powr_ratio_less) simp_all
  have "?pr powr (real 2 / real 5) \<le> 1 powr (real 2 / real 5)"
    by (intro powr_mono2) simp_all
  then have v: "?pr powr (real 2 / real 5) \<le> 1" by simp
  have "2301 powr (real 4 / real 5) * ?pr powr (real 2 / real 5) \<le> 2301 powr (real 4 / real 5) * 1"
    using v by (intro mult_left_mono) simp_all
  with u have "2301 powr (real 4 / real 5) * ?pr powr (real 2 / real 5) < 500"
    by linarith
  then have "0.023 * (2301 powr (real 4 / real 5) * ?pr powr (real 2 / real 5)) < 0.023 * 500"
    by (intro mult_strict_left_mono) simp_all
  then show ?thesis unfolding e by simp
qed


text \<open>
  Claim C5. Whenever the Reynolds number
  \<open>density * velocity * hydraulic_diameter / viscosity\<close> exceeds 4000, the returned
  friction factor is the Blasius value \<open>0.316 * Re ^ (-0.25)\<close> refined some \<open>k \<le> 10\<close>
  times by the Colebrook-White map
  \<open>f \<mapsto> (1 / (-2 log10 (roughness / (3.7 hydraulic_diameter) + 2.51 / (Re sqrt f)))) ^ 2\<close>:
  none of the first \<open>k\<close> refinements moved the estimate by less than \<open>1e-6\<close>, and if
  \<open>k < 10\<close> the next one did (the early stop). With \<open>k = 10\<close> the tolerance was never
  met and the last estimate is returned; in every case a value is returned.
\<close>

theorem colebrook_refinement:
  fixes interp :: interp1d and T area mass_flow pressure :: real
  assumes "rho = density (hydrogen_properties interp T)"
    and "mu = viscosity (hydrogen_properties interp T)"
    and "hydraulic_diameter = (if area = chamber_inner_area then CHAMBER_INNER_DIAMETER
                               else 2 * COOLING_GAP)"
    and "roughness = (if area = chamber_inner_area then CHAMBER_ROUGHNESS
                      else COOLING_ROUGHNESS)"
    and "reynolds = rho * (mass_flow / (rho * area)) * hydraulic_diameter / mu"
    and "refine = (\<lambda>f. (1 / (- 2 * log 10 (roughness / (3.7 * hydraulic_diameter)
                                                + 2.51 / (reynolds * sqrt f)))) ^ 2)"
    and "reynolds > 4000"
  shows "flow_reynolds (calculate_flow_parameters interp T area mass_flow pressure) = reynolds
       \<and> (\<exists>k\<le>10.
             flow_friction_factor (calculate_flow_parameters interp T area mass_flow pressure)
               = (refine ^^ k) (0.316 * reynolds powr (- 0.25))
             \<and> (\<forall>j<k. \<not> \<bar>refine ((refine ^^ j) (0.316 * reynolds powr (- 0.25)))
                            - (refine ^^ j) (0.316 * reynolds powr (- 0.25))\<bar> < 0.000001)
             \<and> (k < 10 \<longrightarrow> \<bar>refine ((refine ^^ k) (0.316 * reynolds powr (- 0.25)))
                            - (refine ^^ k) (0.316 * reynolds powr (- 0.25))\<bar> < 0.000001))"
proof
  show "flow_reynolds (calculate_flow_parameters interp T area mass_flow pressure) = reynolds"
    unfolding assms(1-5) by (rule calculate_flow_parameters_explicit(2))
  from assms(7)
  show "\<exists>k\<le>10.
          flow_friction_factor (calculate_flow_parameters interp T area mass_flow pressure)
            = (refine ^^ k) (0.316 * reynolds powr (- 0.25))
          \<and> (\<forall>j<k. \<not> \<bar>refine ((refine ^^ j) (0.316 * reynolds powr (- 0.25)))
                         - (refine ^^ j) (0.316 * reynolds powr (- 0.25))\<bar> < 0.000001)
          \<and> (k < 10 \<longrightarrow> \<bar>refine ((refine ^^ k) (0.316 * reynolds powr (- 0.25)))
                         - (refine ^^ k) (0.316 * reynolds powr (- 0.25))\<bar> < 0.000001)"
    unfolding assms(1-6) by (rule calculate_flow_parameters_explicit(4))
qed

text \<open>
  A mass flow of 1 g/s through the chamber bore with the properties of hydrogen at 300 K:
  the Reynolds number is about 7153.
\<close>

theorem colebrook_refinement_witness:
  fixes reynolds :: real and refine :: "real \<Rightarrow> real"
  defines "reynolds \<equiv> 0.8 * (0.001 / (0.8 * chamber_inner_area)) * CHAMBER_INNER_DIAMETER
                       / 0.0000089"
  defines "refine \<equiv> \<lambda>f. (1 / (- 2 * log 10 (CHAMBER_ROUGHNESS / (3.7 * CHAMBER_INNER_DIAMETER)
                                                 + 2.51 / (reynolds * sqrt f)))) ^ 2"
  shows "reynolds > 4000
   \<and> flow_reynolds (calculate_flow_parameters frozen_interp 300 chamber_inner_area 0.001 PRESSURE)
       = reynolds
   \<and> (\<exists>k\<le>10.
         flow_friction_factor
           (calculate_flow_parameters frozen_interp 300 chamber_inner_area 0.001 PRESSURE)
           = (refine ^^ k) (0.316 * reynolds powr (- 0.25))
         \<and> (\<forall>j<k. \<not> \<bar>refine ((refine ^^ j) (0.316 * reynolds powr (- 0.25)))
                        - (refine ^^ j) (0.316 * reynolds powr (- 0.25))\<bar> < 0.000001)
         \<and> (k < 10 \<longrightarrow> \<bar>refine ((refine ^^ k) (0.316 * reynolds powr (- 0.25)))
                        - (refine ^^ k) (0.316 * reynolds powr (- 0.25))\<bar> < 0.000001))"
proof -
  have h1: "0.8 = density (hydrogen_properties frozen_interp 300)"
    and h2: "0.0000089 = viscosity (hydrogen_properties frozen_interp 300)"
    by (simp_all only: frozen_hydrogen)
  have h3: "CHAMBER_INNER_DIAMETER = (if chamber_inner_area = chamber_inner_area
              then CHAMBER_INNER_DIAMETER else 2 * COOLING_GAP)"
    and h4: "CHAMBER_ROUGHNESS = (if chamber_inner_area = chamber_inner_area
              then CHAMBER_ROUGHNESS else COOLING_ROUGHNESS)"
    by simp_all
  have h5: "reynolds = 0.8 * (0.001 / (0.8 * chamber_inner_area)) * CHAMBER_INNER_DIAMETER
                       / 0.0000089"
    and h6: "refine = (\<lambda>f. (1 / (- 2 * log 10 (CHAMBER_ROUGHNESS / (3.7 * CHAMBER_INNER_DIAMETER)
                                                 + 2.51 / (reynolds * sqrt f)))) ^ 2)"
    by (simp_all only: reynolds_def refine_def)
  have h7: "reynolds > 4000"
    unfolding reynolds_def by (simp add: chamber_inner_area_def CHAMBER_INNER_DIAMETER_def)
  from colebrook_refinement [OF h1 h2 h3 h4 h5 h6 h7, of PRESSURE] h7
  show ?thesis by (rule conjI [rotated])
qed



text \<open>
  Claim C3, as stated, fails: the friction factor is not continuous at the switch. Its
  values at Re = 2299 and Re = 2301 differ by more than 0.017, which is more than half of
  the laminar value \<open>64 / 2299\<close>.
\<close>

theorem friction_factor_jumps_at_switch:
  "\<not> isCont friction_correlation 2300
   \<and> 0.017 < \<bar>friction_correlation 2301 - friction_correlation 2299\<bar>"
  using friction_not_continuous friction_jump(1) by simp

text \<open>
  Claim C3, amended. The friction factor is \<open>64 / Re\<close> below Re = 2300 and
  \<open>0.316 * Re ^ (-0.25)\<close> from there on; the Nusselt number is the laminar entry
  formula below Re = 2300 and Dittus-Boelter from there on. Neither is smoothed at the
  switch: the friction factor is discontinuous at 2300, between Re = 2299 and Re = 2301
  it rises by more than 0.017 (and less than 0.018), and for the chamber bore with the
  Prandtl number of hydrogen at 300 K the Nusselt number falls by more than 4.
\<close>

theorem regime_switch_correlations:
  "friction_correlation reynolds =
     (if reynolds < 2300 then 64 / reynolds else 0.316 * reynolds powr (- 0.25))
   \<and> nusselt_correlation hydraulic_diameter reynolds prandtl =
     (if reynolds < 2300
      then 3.66 + (0.0668 * (hydraulic_diameter / CHAMBER_HEIGHT) * reynolds * prandtl)
                  / (1 + 0.04 * ((hydraulic_diameter / CHAMBER_HEIGHT) * reynolds * prandtl)
                                 powr (2 / 3))
      else 0.023 * reynolds powr 0.8 * prandtl powr 0.4)
   \<and> \<not> isCont friction_correlation 2300
   \<and> 0.017 < friction_correlation 2301 - friction_correlation 2299
   \<and> friction_correlation 2301 - friction_correlation 2299 < 0.018
   \<and> 4 < nusselt_correlation CHAMBER_INNER_DIAMETER 2299 (14300 * 0.0000089 / 0.18)
          - nusselt_correlation CHAMBER_INNER_DIAMETER 2301 (14300 * 0.0000089 / 0.18)"
proof -
  have a: "friction_correlation reynolds =
     (if reynolds < 2300 then 64 / reynolds else 0.316 * reynolds powr (- 0.25))"
    by (rule friction_correlation_def)
  have b: "nusselt_correlation hydraulic_diameter reynolds prandtl =
     (if reynolds < 2300
      then 3.66 + (0.0668 * (hydraulic_diameter / CHAMBER_HEIGHT) * reynolds * prandtl)
                  / (1 + 0.04 * ((hydraulic_diameter / CHAMBER_HEIGHT) * reynolds * prandtl)
                                 powr (2 / 3))
      else 0.023 * reynolds powr 0.8 * prandtl powr 0.4)"
    by (rule nusselt_correlation_def)
  have c: "4 < nusselt_correlation CHAMBER_INNER_DIAMETER 2299 (14300 * 0.0000089 / 0.18)
          - nusselt_correlation CHAMBER_INNER_DIAMETER 2301 (14300 * 0.0000089 / 0.18)"
    using nusselt_laminar_2299 nusselt_turbulent_2301 by linarith
  from a b c friction_not_continuous friction_jump show ?thesis by blast
qed

subsection \<open>Station areas and the equilibrium time\<close>

text \<open>
  Claim C1, as stated, fails: the solver does not use the grid spacing
  \<open>dz = height / (N - 1)\<close> for the per-station areas.
\<close>

theorem station_areas_not_dz:
  "\<not> (cooling_heat_transfer_area = 2 * pi * chamber_outer_radius * dz
      \<and> chamber_heat_transfer_area = 2 * pi * chamber_inner_radius * dz)"
  by (simp add: cooling_heat_transfer_area_def chamber_heat_transfer_area_def dz_def
      CHAMBER_HEIGHT_def NUM_STATIONS_def chamber_outer_radius_def chamber_inner_radius_def
      CHAMBER_INNER_DIAMETER_def CHAMBER_WALL_THICKNESS_def)

text \<open>
  Claim C1, amended. At every station of every iteration the wall-to-coolant area is
  \<open>2 pi * chamber_outer_radius * (height / N)\<close> and the wall-to-chamber-fluid area is
  \<open>2 pi * chamber_inner_radius * (height / N)\<close> with \<open>N = 20\<close>: the segment length is
  \<open>height / N\<close>, which is \<open>19 / 20\<close> of the grid spacing \<open>dz\<close>, and these are the areas
  in the heat flows of the coolant and chamber passes.
\<close>

theorem station_areas:
  "cooling_heat_transfer_area = 2 * pi * chamber_outer_radius * (CHAMBER_HEIGHT / 20)
   \<and> chamber_heat_transfer_area = 2 * pi * chamber_inner_radius * (CHAMBER_HEIGHT / 20)
   \<and> CHAMBER_HEIGHT / 20 = dz * (19 / 20)
   \<and> T_cooling_fluid (coolant_station interp i s) =
       (T_cooling_fluid s)[i + 1 := T_cooling_fluid s ! i
          + calculate_heat_transfer interp (T_cooling_fluid s ! i) (T_chamber_wall s ! i)
              ''cooling'' (2 * COOLING_GAP)
            * (2 * pi * chamber_outer_radius * (CHAMBER_HEIGHT / 20))
            * (T_chamber_wall s ! i - T_cooling_fluid s ! i)
            / (MASS_FLOW_RATE * specific_heat (hydrogen_properties interp (T_cooling_fluid s ! i)))]
   \<and> T_chamber_fluid (chamber_station interp i s) =
       (T_chamber_fluid s)[i - 1 := T_chamber_fluid s ! i
          + (heater_power_distribution ! i
             + calculate_heat_transfer interp (T_chamber_fluid s ! i) (T_chamber_wall s ! i)
                 ''chamber'' CHAMBER_INNER_DIAMETER
               * (2 * pi * chamber_inner_radius * (CHAMBER_HEIGHT / 20))
               * (T_chamber_wall s ! i - T_chamber_fluid s ! i))
            / (MASS_FLOW_RATE * specific_heat (hydrogen_properties interp (T_chamber_fluid s ! i)))]"
proof -
  have a: "cooling_heat_transfer_area = 2 * pi * chamber_outer_radius * (CHAMBER_HEIGHT / 20)"
    by (simp add: cooling_heat_transfer_area_def NUM_STATIONS_def)
  have b: "chamber_heat_transfer_area = 2 * pi * chamber_inner_radius * (CHAMBER_HEIGHT / 20)"
    by (simp add: chamber_heat_transfer_area_def NUM_STATIONS_def)
  have c: "CHAMBER_HEIGHT / 20 = dz * (19 / 20)"
    by (simp add: CHAMBER_HEIGHT_def NUM_STATIONS_def dz_def)
  have d: "T_cooling_fluid (coolant_station interp i s) =
       (T_cooling_fluid s)[i + 1 := T_cooling_fluid s ! i
          + calculate_heat_transfer interp (T_cooling_fluid s ! i) (T_chamber_wall s ! i)
              ''cooling'' (2 * COOLING_GAP)
            * (2 * pi * chamber_outer_radius * (CHAMBER_HEIGHT / 20))
            * (T_chamber_wall s ! i - T_cooling_fluid s ! i)
            / (MASS_FLOW_RATE * specific_heat (hydrogen_properties interp (T_cooling_fluid s ! i)))]"
    unfolding coolant_station_def Let_def a by simp
  have e: "T_chamber_fluid (chamber_station interp i s) =
       (T_chamber_fluid s)[i - 1 := T_chamber_fluid s ! i
          + (heater_power_distribution ! i
             + calculate_heat_transfer interp (T_chamber_fluid s ! i) (T_chamber_wall s ! i)
                 ''chamber'' CHAMBER_INNER_DIAMETER
               * (2 * pi * chamber_inner_radius * (CHAMBER_HEIGHT / 20))
               * (T_chamber_wall s ! i - T_chamber_fluid s ! i))
            / (MASS_FLOW_RATE * specific_heat (hydrogen_properties interp (T_chamber_fluid s ! i)))]"
    unfolding chamber_station_def Let_def b by simp
  from a b c d e show ?thesis by blast
qed



end
